theory Spec2Isabelle
  imports Main
begin

section \<open>Python values, exceptions and strings\<close>

text \<open>
  The two processors (\<^verbatim>\<open>langchain.py\<close>, \<^verbatim>\<open>langgraph.py\<close>) receive untyped
  Python values from the backend: plain strings, message chunks, event dictionaries,
  documents. \<open>pyval\<close> is the universe of values the model distinguishes. A dictionary
  is an association list with string keys (looked up with \<open>map_of\<close>).

  Modelled from the spec: the library classes \<^verbatim>\<open>AIMessageChunk\<close> and
  \<^verbatim>\<open>Document\<close> are not part of the repository. A chunk is represented by its text
  content (the spec's \<open>IncrementalMessageChunk(text: string)\<close>); both classes are
  pydantic models, and the value their method \<^verbatim>\<open>dict(exclude_none=True)\<close> returns
  is carried as a field, since that value is all the code reads of a document.
\<close>

datatype pyval =
    PNone
  | PInt int
  | PStr string
  | PList "pyval list"
  | PDict "(string \<times> pyval) list"
  | AIMessageChunk string pyval
  | Document pyval

text \<open>
  The exceptions the code can meet. \<open>GeneratorExit\<close>, \<open>KeyboardInterrupt\<close>,
  \<open>SystemExit\<close> and \<open>CancelledError\<close> (of \<^verbatim>\<open>asyncio\<close>) derive from
  \<^verbatim>\<open>BaseException\<close> only; all the others derive from \<^verbatim>\<open>Exception\<close>.
  \<open>StopAsyncIteration\<close> is the exception by which an asynchronous iterator says that
  it is exhausted. \<open>OtherException n\<close> is any further subclass of \<^verbatim>\<open>Exception\<close>
  that a backend raises (\<^verbatim>\<open>RuntimeError\<close>, \<^verbatim>\<open>ValueError\<close>, ...), with its name; it
  never stands for one of the classes that have a constructor of their own.
\<close>

datatype exn =
    GeneratorExit
  | KeyboardInterrupt
  | SystemExit
  | CancelledError
  | IndexError
  | KeyError
  | TypeError
  | AttributeError
  | StopAsyncIteration
  | OtherException string

text \<open>\<^verbatim>\<open>isinstance(e, Exception)\<close>: what the clause \<^verbatim>\<open>except Exception\<close> catches.\<close>

fun is_Exception :: "exn \<Rightarrow> bool" where
  "is_Exception GeneratorExit = False"
| "is_Exception KeyboardInterrupt = False"
| "is_Exception SystemExit = False"
| "is_Exception CancelledError = False"
| "is_Exception IndexError = True"
| "is_Exception KeyError = True"
| "is_Exception TypeError = True"
| "is_Exception AttributeError = True"
| "is_Exception StopAsyncIteration = True"
| "is_Exception (OtherException n) = True"

text \<open>
  \<^verbatim>\<open>obj[key]\<close> with a string key: a dictionary returns the value or raises
  \<^verbatim>\<open>KeyError\<close>; every other value of the universe raises \<^verbatim>\<open>TypeError\<close> (strings
  and lists want integer indices, the others are not subscriptable).
\<close>

fun py_getitem :: "pyval \<Rightarrow> string \<Rightarrow> exn + pyval" where
  "py_getitem (PDict kvs) k = (case map_of kvs k of None \<Rightarrow> Inl KeyError | Some v \<Rightarrow> Inr v)"
| "py_getitem PNone k = Inl TypeError"
| "py_getitem (PInt i) k = Inl TypeError"
| "py_getitem (PStr s) k = Inl TypeError"
| "py_getitem (PList xs) k = Inl TypeError"
| "py_getitem (AIMessageChunk t d) k = Inl TypeError"
| "py_getitem (Document d) k = Inl TypeError"

text \<open>\<^verbatim>\<open>obj.get(key)\<close>: only a dictionary has the method; a missing key gives \<^verbatim>\<open>None\<close>.\<close>

fun py_get :: "pyval \<Rightarrow> string \<Rightarrow> exn + pyval" where
  "py_get (PDict kvs) k = (case map_of kvs k of None \<Rightarrow> Inr PNone | Some v \<Rightarrow> Inr v)"
| "py_get PNone k = Inl AttributeError"
| "py_get (PInt i) k = Inl AttributeError"
| "py_get (PStr s) k = Inl AttributeError"
| "py_get (PList xs) k = Inl AttributeError"
| "py_get (AIMessageChunk t d) k = Inl AttributeError"
| "py_get (Document d) k = Inl AttributeError"

text \<open>\<^verbatim>\<open>len(obj)\<close>: lists, strings and dictionaries have a length.\<close>

fun py_len :: "pyval \<Rightarrow> exn + nat" where
  "py_len (PList xs) = Inr (length xs)"
| "py_len (PStr s) = Inr (length s)"
| "py_len (PDict kvs) = Inr (length kvs)"
| "py_len PNone = Inl TypeError"
| "py_len (PInt i) = Inl TypeError"
| "py_len (AIMessageChunk t d) = Inl TypeError"
| "py_len (Document d) = Inl TypeError"

text \<open>
  \<^verbatim>\<open>for x in obj\<close>: a list gives its items, a string its characters (as strings of
  length one), a dictionary its keys; the other values are not iterable.
\<close>

fun py_iter :: "pyval \<Rightarrow> exn + pyval list" where
  "py_iter (PList xs) = Inr xs"
| "py_iter (PStr s) = Inr (map (\<lambda>c. PStr [c]) s)"
| "py_iter (PDict kvs) = Inr (map (\<lambda>kv. PStr (fst kv)) kvs)"
| "py_iter PNone = Inl TypeError"
| "py_iter (PInt i) = Inl TypeError"
| "py_iter (AIMessageChunk t d) = Inl TypeError"
| "py_iter (Document d) = Inl TypeError"

text \<open>\<^verbatim>\<open>obj.dict(exclude_none=True)\<close>: a method of the pydantic models only.\<close>

fun py_dict_exclude_none :: "pyval \<Rightarrow> exn + pyval" where
  "py_dict_exclude_none (Document d) = Inr d"
| "py_dict_exclude_none (AIMessageChunk t d) = Inr d"
| "py_dict_exclude_none PNone = Inl AttributeError"
| "py_dict_exclude_none (PInt i) = Inl AttributeError"
| "py_dict_exclude_none (PStr s) = Inl AttributeError"
| "py_dict_exclude_none (PList xs) = Inl AttributeError"
| "py_dict_exclude_none (PDict kvs) = Inl AttributeError"

text \<open>
  \<^verbatim>\<open>str.strip()\<close> removes leading and trailing whitespace. A \<open>char\<close> stands for a
  code point below 256; of these Python's \<^verbatim>\<open>str.isspace\<close> holds for 9 to 13, 28 to
  32, 133 and 160.
\<close>

definition isspace :: "char \<Rightarrow> bool" where
  "isspace c =
     (let n = (of_char c :: nat)
      in (9 \<le> n \<and> n \<le> 13) \<or> (28 \<le> n \<and> n \<le> 32) \<or> n = 133 \<or> n = 160)"

definition strip :: "string \<Rightarrow> string" where
  "strip s = rev (dropWhile isspace (rev (dropWhile isspace s)))"

text \<open>\<^verbatim>\<open>obj.strip()\<close> on a value: only a string has the method.\<close>

fun py_strip :: "pyval \<Rightarrow> exn + string" where
  "py_strip (PStr s) = Inr (strip s)"
| "py_strip PNone = Inl AttributeError"
| "py_strip (PInt i) = Inl AttributeError"
| "py_strip (PList xs) = Inl AttributeError"
| "py_strip (PDict kvs) = Inl AttributeError"
| "py_strip (AIMessageChunk t d) = Inl AttributeError"
| "py_strip (Document d) = Inl AttributeError"

section \<open>Frames and effects\<close>

text \<open>
  The frames of \<^verbatim>\<open>pipecat.frames.frames\<close> that the code names, the
  \<^verbatim>\<open>ToolResultMessage\<close> data frame that \<^verbatim>\<open>langgraph.py\<close> declares (fields
  \<^verbatim>\<open>result\<close> and \<^verbatim>\<open>type\<close>), and \<open>OtherFrame\<close> for every other frame of the
  pipeline (audio, control signals), by name. \<open>LLMMessagesFrame\<close> carries the list of
  messages. The spec calls them \<open>ResponseStart\<close>, \<open>ResponseEnd\<close>, \<open>SubResponseStart\<close>,
  \<open>SubResponseEnd\<close>, \<open>TextChunk\<close> and \<open>ToolResult\<close>.
\<close>

datatype frame =
    LLMFullResponseStartFrame
  | LLMFullResponseEndFrame
  | LLMResponseStartFrame
  | LLMResponseEndFrame
  | TextFrame string
  | ToolResultMessage pyval string
  | LLMMessagesFrame "pyval list"
  | OtherFrame string

datatype FrameDirection = DOWNSTREAM | UPSTREAM

text \<open>The method of the logger that is called; the message is not modelled.\<close>

datatype logcall = debug | warning | error | exception

text \<open>
  What the backend is called with. \<^verbatim>\<open>LangchainProcessor\<close> passes the dictionary
  \<^verbatim>\<open>{transcript_key: text}\<close> and \<^verbatim>\<open>config={"configurable": self._config}\<close>;
  \<^verbatim>\<open>LanggraphProcessor\<close> passes \<^verbatim>\<open>{"messages": [HumanMessage(content=text)]}\<close>
  and \<^verbatim>\<open>config={"configurable": {"thread_id": self._participant_id}}\<close>.
\<close>

record chain_call =
  inputs :: "string \<rightharpoonup> string"
  configurable :: "string \<rightharpoonup> pyval"

record graph_call =
  human_message :: string
  thread_id :: "string option"

text \<open>
  What a backend answers: the elements its asynchronous iterator yields, in order,
  and what the request after the last element does: \<open>None\<close> when the iterator is
  exhausted, \<open>Some e\<close> when the request raises \<open>e\<close> (a fault on open is
  \<open>elements = []\<close> with \<open>Some e\<close>). The sequence is finite, as the spec requires of a
  backend.
\<close>

record stream =
  elements :: "pyval list"
  raises :: "exn option"

text \<open>
  How \<^verbatim>\<open>async for\<close> takes the end of the iterator: exhaustion, also when it is
  signalled by a \<^verbatim>\<open>StopAsyncIteration\<close> that the iterator raises itself, ends the
  loop normally; every other exception leaves the loop as it is.
\<close>

fun end_of_iteration :: "exn option \<Rightarrow> exn option" where
  "end_of_iteration None = None"
| "end_of_iteration (Some e) = (if e = StopAsyncIteration then None else Some e)"

text \<open>
  The observable effects of the code, in the order they happen.

  Modelled from the spec: \<^verbatim>\<open>push_frame\<close> belongs to the base class
  \<^verbatim>\<open>FrameProcessor\<close>, which is not part of the repository; it hands the frame to the
  neighbouring stage in the given direction, downstream when none is given, and always
  succeeds.
\<close>

datatype effect =
    Push frame FrameDirection
  | Log logcall
  | Astream chain_call
  | AstreamEvents graph_call
  | Anext

fun pushed :: "effect list \<Rightarrow> (frame \<times> FrameDirection) list" where
  "pushed [] = []"
| "pushed (Push f d # es) = (f, d) # pushed es"
| "pushed (Log l # es) = pushed es"
| "pushed (Astream c # es) = pushed es"
| "pushed (AstreamEvents c # es) = pushed es"
| "pushed (Anext # es) = pushed es"

text \<open>The frames pushed, without their directions.\<close>

definition frames :: "effect list \<Rightarrow> frame list" where
  "frames es = map fst (pushed es)"

fun chain_calls :: "effect list \<Rightarrow> chain_call list" where
  "chain_calls [] = []"
| "chain_calls (Astream c # es) = c # chain_calls es"
| "chain_calls (Push f d # es) = chain_calls es"
| "chain_calls (Log l # es) = chain_calls es"
| "chain_calls (AstreamEvents c # es) = chain_calls es"
| "chain_calls (Anext # es) = chain_calls es"

fun graph_calls :: "effect list \<Rightarrow> graph_call list" where
  "graph_calls [] = []"
| "graph_calls (AstreamEvents c # es) = c # graph_calls es"
| "graph_calls (Push f d # es) = graph_calls es"
| "graph_calls (Log l # es) = graph_calls es"
| "graph_calls (Astream c # es) = graph_calls es"
| "graph_calls (Anext # es) = graph_calls es"

section \<open>LangchainProcessor\<close>

text \<open>
  The fields \<^verbatim>\<open>_chain\<close>, \<^verbatim>\<open>_config\<close> and \<^verbatim>\<open>_transcript_key\<close>. The chain is
  the backend: it answers a call with a stream.
\<close>

record LangchainProcessor =
  lc_chain :: "chain_call \<Rightarrow> stream"
  lc_config :: "string \<rightharpoonup> pyval"
  lc_transcript_key :: string

text \<open>\<^verbatim>\<open>__init__\<close>: the configuration starts as the empty dictionary.\<close>

definition langchain_init :: "(chain_call \<Rightarrow> stream) \<Rightarrow> string \<Rightarrow> LangchainProcessor" where
  "langchain_init chain tkey =
     \<lparr>lc_chain = chain, lc_config = Map.empty, lc_transcript_key = tkey\<rparr>"

text \<open>\<^verbatim>\<open>set_configurable\<close>: \<^verbatim>\<open>self._config.update(configurable)\<close>.\<close>

definition langchain_set_configurable ::
  "LangchainProcessor \<Rightarrow> (string \<rightharpoonup> pyval) \<Rightarrow> LangchainProcessor" where
  "langchain_set_configurable self cfg = self\<lparr>lc_config := lc_config self ++ cfg\<rparr>"

text \<open>
  \<^verbatim>\<open>__get_token_value\<close>: the \<^verbatim>\<open>match\<close> on the class of the token, in the order of
  the source.
\<close>

fun langchain_get_token_value :: "pyval \<Rightarrow> string" where
  "langchain_get_token_value (PStr s) = s"
| "langchain_get_token_value (AIMessageChunk t d) = t"
| "langchain_get_token_value PNone = []"
| "langchain_get_token_value (PInt i) = []"
| "langchain_get_token_value (PList xs) = []"
| "langchain_get_token_value (PDict kvs) = []"
| "langchain_get_token_value (Document d) = []"

text \<open>
  The body of the \<^verbatim>\<open>async for\<close> of \<^verbatim>\<open>_ainvoke\<close>, over the elements the stream
  still has to yield and the way it ends: each round asks for the next element
  (\<open>Anext\<close>) and pushes one \<open>TextFrame\<close>. The result is the effects and the exception
  that leaves the loop, if any.
\<close>

fun langchain_drain :: "pyval list \<Rightarrow> exn option \<Rightarrow> effect list \<times> exn option" where
  "langchain_drain [] r = ([Anext], end_of_iteration r)"
| "langchain_drain (token # tokens) r =
     (case langchain_drain tokens r of
        (es, r') \<Rightarrow> (Anext # Push (TextFrame (langchain_get_token_value token)) DOWNSTREAM # es, r'))"

text \<open>
  The two \<^verbatim>\<open>except\<close> clauses of \<^verbatim>\<open>_ainvoke\<close>: \<^verbatim>\<open>GeneratorExit\<close> is logged as a
  warning, an \<^verbatim>\<open>Exception\<close> as an error; any other exception is not caught.
\<close>

fun langchain_except :: "exn option \<Rightarrow> effect list \<times> exn option" where
  "langchain_except None = ([], None)"
| "langchain_except (Some e) =
     (if e = GeneratorExit then ([Log warning], None)
      else if is_Exception e then ([Log error], None)
      else ([], Some e))"

text \<open>
  \<^verbatim>\<open>_ainvoke\<close>: log, push the start frame, open the stream (\<open>langchain_call\<close> is
  what \<^verbatim>\<open>astream\<close> is called with), drain it under the \<^verbatim>\<open>try\<close>, and push the end
  frame unless an exception escaped.
\<close>

definition langchain_call :: "LangchainProcessor \<Rightarrow> string \<Rightarrow> chain_call" where
  "langchain_call self text =
     \<lparr>inputs = [lc_transcript_key self \<mapsto> text], configurable = lc_config self\<rparr>"

definition langchain_ainvoke :: "LangchainProcessor \<Rightarrow> string \<Rightarrow> effect list \<times> exn option" where
  "langchain_ainvoke self text =
     (let call = langchain_call self text;
          s = lc_chain self call
      in case langchain_drain (elements s) (raises s) of
           (es, r) \<Rightarrow>
             (case langchain_except r of
                (ls, None) \<Rightarrow>
                  ([Log debug, Push LLMFullResponseStartFrame DOWNSTREAM, Astream call] @ es @ ls
                     @ [Push LLMFullResponseEndFrame DOWNSTREAM], None)
              | (ls, Some e) \<Rightarrow>
                  ([Log debug, Push LLMFullResponseStartFrame DOWNSTREAM, Astream call] @ es @ ls,
                   Some e)))"

text \<open>
  \<^verbatim>\<open>frame.messages[-1]\<close>: the last message, \<^verbatim>\<open>IndexError\<close> on the empty list.
\<close>

fun last_message :: "pyval list \<Rightarrow> exn + pyval" where
  "last_message [] = Inl IndexError"
| "last_message (m # ms) = Inr (last (m # ms))"

text \<open>
  \<^verbatim>\<open>process_frame\<close>: an \<^verbatim>\<open>LLMMessagesFrame\<close> is logged, the content of its last
  message is read and stripped, and \<^verbatim>\<open>_ainvoke\<close> runs on it; nothing catches an
  exception here. Every other frame is pushed on in its direction.
\<close>

fun langchain_process_frame ::
  "LangchainProcessor \<Rightarrow> frame \<Rightarrow> FrameDirection \<Rightarrow> effect list \<times> exn option" where
  "langchain_process_frame self (LLMMessagesFrame messages) direction =
     (case last_message messages of
        Inl e \<Rightarrow> ([Log debug], Some e)
      | Inr m \<Rightarrow>
          (case py_getitem m ''content'' of
             Inl e \<Rightarrow> ([Log debug], Some e)
           | Inr content \<Rightarrow>
               (case py_strip content of
                  Inl e \<Rightarrow> ([Log debug], Some e)
                | Inr text \<Rightarrow>
                    (case langchain_ainvoke self text of (es, r) \<Rightarrow> (Log debug # es, r)))))"
| "langchain_process_frame self frame direction = ([Push frame direction], None)"

section \<open>LanggraphProcessor\<close>

text \<open>The fields \<^verbatim>\<open>_graph\<close> (the backend) and \<^verbatim>\<open>_participant_id\<close>.\<close>

record LanggraphProcessor =
  lg_graph :: "graph_call \<Rightarrow> stream"
  lg_participant_id :: "string option"

definition langgraph_init :: "(graph_call \<Rightarrow> stream) \<Rightarrow> LanggraphProcessor" where
  "langgraph_init graph = \<lparr>lg_graph = graph, lg_participant_id = None\<rparr>"

definition langgraph_set_participant_id :: "LanggraphProcessor \<Rightarrow> string \<Rightarrow> LanggraphProcessor" where
  "langgraph_set_participant_id self pid = self\<lparr>lg_participant_id := Some pid\<rparr>"

text \<open>
  \<^verbatim>\<open>__get_token_value\<close> of this class returns \<^verbatim>\<open>str(text.content)\<close> for a chunk;
  the content is a string, which \<^verbatim>\<open>str\<close> returns as it is.
\<close>

fun langgraph_get_token_value :: "pyval \<Rightarrow> string" where
  "langgraph_get_token_value (PStr s) = s"
| "langgraph_get_token_value (AIMessageChunk t d) = t"
| "langgraph_get_token_value PNone = []"
| "langgraph_get_token_value (PInt i) = []"
| "langgraph_get_token_value (PList xs) = []"
| "langgraph_get_token_value (PDict kvs) = []"
| "langgraph_get_token_value (Document d) = []"

text \<open>
  The loop \<^verbatim>\<open>for doc in docs\<close>: each document is turned into a dictionary and pushed
  as a \<^verbatim>\<open>ToolResultMessage\<close>, whose \<^verbatim>\<open>type\<close> keeps its default.
\<close>

fun push_docs :: "pyval list \<Rightarrow> effect list \<times> exn option" where
  "push_docs [] = ([], None)"
| "push_docs (doc # docs) =
     (case py_dict_exclude_none doc of
        Inl e \<Rightarrow> ([], Some e)
      | Inr result \<Rightarrow>
          (case push_docs docs of
             (es, r) \<Rightarrow> (Push (ToolResultMessage result ''tool_result'') DOWNSTREAM # es, r)))"

text \<open>
  The \<^verbatim>\<open>match event["event"]\<close> of \<^verbatim>\<open>_ainvoke\<close>, for one element of the stream: the
  effects, and the exception a lookup raises, if any. In the first case the start
  frame is pushed before the chunk is looked up; in the second the lookups happen
  while the log message is built.
\<close>

definition handle_event :: "pyval \<Rightarrow> effect list \<times> exn option" where
  "handle_event event =
     (case py_getitem event ''event'' of
        Inl e \<Rightarrow> ([], Some e)
      | Inr kind \<Rightarrow>
          if kind = PStr ''on_chat_model_stream'' then
            (case py_getitem event ''data'' of
               Inl e \<Rightarrow> ([Push LLMResponseStartFrame DOWNSTREAM], Some e)
             | Inr data \<Rightarrow>
                 (case py_getitem data ''chunk'' of
                    Inl e \<Rightarrow> ([Push LLMResponseStartFrame DOWNSTREAM], Some e)
                  | Inr chunk \<Rightarrow>
                      ([Push LLMResponseStartFrame DOWNSTREAM,
                        Push (TextFrame (langgraph_get_token_value chunk)) DOWNSTREAM,
                        Push LLMResponseEndFrame DOWNSTREAM], None)))
          else if kind = PStr ''on_tool_start'' then
            (case py_getitem event ''name'' of
               Inl e \<Rightarrow> ([], Some e)
             | Inr name \<Rightarrow>
                 (case py_getitem event ''data'' of
                    Inl e \<Rightarrow> ([], Some e)
                  | Inr data \<Rightarrow>
                      (case py_get data ''input'' of
                         Inl e \<Rightarrow> ([], Some e)
                       | Inr inp \<Rightarrow> ([Log debug], None))))
          else if kind = PStr ''on_tool_end'' then ([], None)
          else if kind = PStr ''on_retriever_end'' then
            (case py_getitem event ''data'' of
               Inl e \<Rightarrow> ([], Some e)
             | Inr data \<Rightarrow>
                 (case py_getitem data ''output'' of
                    Inl e \<Rightarrow> ([], Some e)
                  | Inr output \<Rightarrow>
                      (case py_getitem output ''documents'' of
                         Inl e \<Rightarrow> ([], Some e)
                       | Inr docs \<Rightarrow>
                           (case py_len docs of
                              Inl e \<Rightarrow> ([], Some e)
                            | Inr n \<Rightarrow>
                                (case py_iter docs of
                                   Inl e \<Rightarrow> ([Log debug], Some e)
                                 | Inr items \<Rightarrow>
                                     (case push_docs items of
                                        (es, r) \<Rightarrow> (Log debug # es, r)))))))
          else ([], None))"

text \<open>
  The \<^verbatim>\<open>async for\<close> of \<^verbatim>\<open>_ainvoke\<close>: each round asks for the next element and
  handles it; an exception raised while handling an element leaves the loop, and the
  elements after it are never asked for.
\<close>

fun langgraph_drain :: "pyval list \<Rightarrow> exn option \<Rightarrow> effect list \<times> exn option" where
  "langgraph_drain [] r = ([Anext], end_of_iteration r)"
| "langgraph_drain (event # events) r =
     (case handle_event event of
        (hs, Some e) \<Rightarrow> (Anext # hs, Some e)
      | (hs, None) \<Rightarrow>
          (case langgraph_drain events r of (es, r') \<Rightarrow> (Anext # hs @ es, r')))"

text \<open>
  The two \<^verbatim>\<open>except\<close> clauses: both log with \<^verbatim>\<open>logger.exception\<close>; an exception
  that is neither \<^verbatim>\<open>GeneratorExit\<close> nor an \<^verbatim>\<open>Exception\<close> is not caught.
\<close>

fun langgraph_except :: "exn option \<Rightarrow> effect list \<times> exn option" where
  "langgraph_except None = ([], None)"
| "langgraph_except (Some e) =
     (if e = GeneratorExit then ([Log exception], None)
      else if is_Exception e then ([Log exception], None)
      else ([], Some e))"

text \<open>
  \<^verbatim>\<open>_ainvoke\<close>, as in the other class; \<open>langgraph_call\<close> is what
  \<^verbatim>\<open>astream_events\<close> is called with.
\<close>

definition langgraph_call :: "LanggraphProcessor \<Rightarrow> string \<Rightarrow> graph_call" where
  "langgraph_call self text = \<lparr>human_message = text, thread_id = lg_participant_id self\<rparr>"

definition langgraph_ainvoke :: "LanggraphProcessor \<Rightarrow> string \<Rightarrow> effect list \<times> exn option" where
  "langgraph_ainvoke self text =
     (let call = langgraph_call self text;
          s = lg_graph self call
      in case langgraph_drain (elements s) (raises s) of
           (es, r) \<Rightarrow>
             (case langgraph_except r of
                (ls, None) \<Rightarrow>
                  ([Log debug, Push LLMFullResponseStartFrame DOWNSTREAM, AstreamEvents call] @ es
                     @ ls @ [Push LLMFullResponseEndFrame DOWNSTREAM], None)
              | (ls, Some e) \<Rightarrow>
                  ([Log debug, Push LLMFullResponseStartFrame DOWNSTREAM, AstreamEvents call] @ es
                     @ ls, Some e)))"

fun langgraph_process_frame ::
  "LanggraphProcessor \<Rightarrow> frame \<Rightarrow> FrameDirection \<Rightarrow> effect list \<times> exn option" where
  "langgraph_process_frame self (LLMMessagesFrame messages) direction =
     (case last_message messages of
        Inl e \<Rightarrow> ([Log debug], Some e)
      | Inr m \<Rightarrow>
          (case py_getitem m ''content'' of
             Inl e \<Rightarrow> ([Log debug], Some e)
           | Inr content \<Rightarrow>
               (case py_strip content of
                  Inl e \<Rightarrow> ([Log debug], Some e)
                | Inr text \<Rightarrow>
                    (case langgraph_ainvoke self text of (es, r) \<Rightarrow> (Log debug # es, r)))))"
| "langgraph_process_frame self frame direction = ([Push frame direction], None)"

section \<open>Notions used in the statements\<close>

text \<open>
  The payload events of the spec: text chunks, tool results, and the sub-bracket
  around a chunk. The two frames of the framing bracket are not payload.
\<close>

fun payload :: "frame \<Rightarrow> bool" where
  "payload (TextFrame s) = True"
| "payload (ToolResultMessage r t) = True"
| "payload LLMResponseStartFrame = True"
| "payload LLMResponseEndFrame = True"
| "payload LLMFullResponseStartFrame = False"
| "payload LLMFullResponseEndFrame = False"
| "payload (LLMMessagesFrame ms) = False"
| "payload (OtherFrame n) = False"

text \<open>
  The exceptions that the \<^verbatim>\<open>try\<close> statement of \<^verbatim>\<open>_ainvoke\<close> catches, in either
  processor: those of its two clauses \<^verbatim>\<open>except GeneratorExit\<close> and
  \<^verbatim>\<open>except Exception\<close>. This is read off the code; it is narrower than the faults
  of the spec, which count a cancellation (\<open>CancelledError\<close>) among the streams closed
  prematurely. A stream has a contained ending when it is exhausted or ends in an
  exception that is caught.
\<close>

definition caught :: "exn \<Rightarrow> bool" where
  "caught e = (e = GeneratorExit \<or> is_Exception e)"

fun contained :: "exn option \<Rightarrow> bool" where
  "contained None = True"
| "contained (Some e) = caught e"

text \<open>
  The elements of a stream that the loop of \<open>langgraph_drain\<close> asks for: all of them
  up to and including the first one whose handling raises.
\<close>

fun drawn :: "pyval list \<Rightarrow> pyval list" where
  "drawn [] = []"
| "drawn (event # events) =
     (if snd (handle_event event) = None then event # drawn events else [event])"

text \<open>The trigger frame of the spec: an \<open>LLMMessagesFrame\<close>.\<close>

fun trigger :: "frame \<Rightarrow> bool" where
  "trigger (LLMMessagesFrame ms) = True"
| "trigger LLMFullResponseStartFrame = False"
| "trigger LLMFullResponseEndFrame = False"
| "trigger LLMResponseStartFrame = False"
| "trigger LLMResponseEndFrame = False"
| "trigger (TextFrame s) = False"
| "trigger (ToolResultMessage r t) = False"
| "trigger (OtherFrame n) = False"

section \<open>Auxiliary facts\<close>

lemma pushed_append: "pushed (xs @ ys) = pushed xs @ pushed ys"
  by (induction xs rule: pushed.induct) simp_all

lemma frames_append: "frames (xs @ ys) = frames xs @ frames ys"
  by (simp add: frames_def pushed_append)

lemma frames_simps:
  "frames [] = []"
  "frames (Push f d # es) = f # frames es"
  "frames (Log l # es) = frames es"
  "frames (Astream c # es) = frames es"
  "frames (AstreamEvents g # es) = frames es"
  "frames (Anext # es) = frames es"
  by (simp_all add: frames_def)

lemma chain_calls_append: "chain_calls (xs @ ys) = chain_calls xs @ chain_calls ys"
  by (induction xs rule: chain_calls.induct) simp_all

lemma graph_calls_append: "graph_calls (xs @ ys) = graph_calls xs @ graph_calls ys"
  by (induction xs rule: graph_calls.induct) simp_all

lemma langchain_drain_eq:
  "langchain_drain tokens r =
     (concat (map (\<lambda>t. [Anext, Push (TextFrame (langchain_get_token_value t)) DOWNSTREAM]) tokens) @ [Anext],
      end_of_iteration r)"
  by (induction tokens) simp_all

lemma langchain_drain_frames:
  "frames (fst (langchain_drain tokens r)) = map (\<lambda>t. TextFrame (langchain_get_token_value t)) tokens"
  by (induction tokens) (auto simp: frames_simps split: prod.splits)

lemma langchain_drain_snd: "snd (langchain_drain tokens r) = end_of_iteration r"
  by (simp add: langchain_drain_eq)

lemma langchain_drain_calls: "chain_calls (fst (langchain_drain tokens r)) = []"
  by (induction tokens) (auto split: prod.splits)

lemma py_getitem_exn: "py_getitem v k = Inl e \<Longrightarrow> is_Exception e"
  by (cases v) (auto split: option.splits)

lemma py_get_exn: "py_get v k = Inl e \<Longrightarrow> is_Exception e"
  by (cases v) (auto split: option.splits)

lemma py_len_exn: "py_len v = Inl e \<Longrightarrow> is_Exception e"
  by (cases v) auto

lemma py_iter_exn: "py_iter v = Inl e \<Longrightarrow> is_Exception e"
  by (cases v) auto

lemma push_docs_exn: "push_docs docs = (es, Some e) \<Longrightarrow> is_Exception e"
  by (induction docs arbitrary: es) (auto split: sum.splits prod.splits elim: py_dict_exclude_none.elims)

lemma push_docs_payload: "list_all payload (frames (fst (push_docs docs)))"
  by (induction docs) (auto simp: frames_simps split: sum.splits prod.splits)

lemma push_docs_graph_calls: "graph_calls (fst (push_docs docs)) = []"
  by (induction docs) (auto split: sum.splits prod.splits)

lemma handle_event_exn: "snd (handle_event ev) = Some e \<Longrightarrow> is_Exception e"
  unfolding handle_event_def
  by (auto split: sum.splits if_splits prod.splits
      dest: py_getitem_exn py_get_exn py_len_exn py_iter_exn push_docs_exn)

lemma handle_event_payload: "list_all payload (frames (fst (handle_event ev)))"
proof -
  have "\<And>items es r. push_docs items = (es, r) \<Longrightarrow> list_all payload (frames es)"
    using push_docs_payload by (metis fst_conv)
  then show ?thesis
    unfolding handle_event_def
    by (auto simp: frames_simps split: sum.splits prod.splits)
qed

lemma handle_event_graph_calls: "graph_calls (fst (handle_event ev)) = []"
proof -
  have "\<And>items es r. push_docs items = (es, r) \<Longrightarrow> graph_calls es = []"
    using push_docs_graph_calls by (metis fst_conv)
  then show ?thesis
    unfolding handle_event_def
    by (auto split: sum.splits prod.splits)
qed

lemma langgraph_drain_exn:
  "snd (langgraph_drain evs r) = Some e \<Longrightarrow> r = Some e \<or> is_Exception e"
proof (induction evs)
  case Nil
  then show ?case by (cases r) (auto split: if_splits)
next
  case (Cons ev evs)
  obtain hs h where h: "handle_event ev = (hs, h)" by (cases "handle_event ev")
  show ?case
  proof (cases h)
    case None
    with h Cons show ?thesis by (simp split: prod.splits)
  next
    case (Some e')
    with h Cons.prems have "e' = e" by simp
    with h Some handle_event_exn[of ev e] show ?thesis by simp
  qed
qed

lemma langgraph_drain_None: "snd (langgraph_drain evs r) = None \<Longrightarrow> end_of_iteration r = None"
  by (induction evs) (auto split: prod.splits option.splits)

lemma langgraph_drain_payload: "list_all payload (frames (fst (langgraph_drain evs r)))"
proof (induction evs)
  case Nil
  then show ?case by (simp add: frames_simps)
next
  case (Cons ev evs)
  obtain hs h where h: "handle_event ev = (hs, h)" by (cases "handle_event ev")
  have p: "list_all payload (frames hs)" using handle_event_payload[of ev] h by simp
  show ?case
    using h p Cons by (cases h) (auto simp: frames_simps frames_append split: prod.splits)
qed

lemma langgraph_drain_graph_calls: "graph_calls (fst (langgraph_drain evs r)) = []"
proof (induction evs)
  case Nil
  then show ?case by simp
next
  case (Cons ev evs)
  obtain hs h where h: "handle_event ev = (hs, h)" by (cases "handle_event ev")
  have p: "graph_calls hs = []" using handle_event_graph_calls[of ev] h by simp
  show ?case
    using h p Cons by (cases h) (auto simp: graph_calls_append split: prod.splits)
qed

lemma langgraph_drain_drawn:
  "fst (langgraph_drain evs r) =
     concat (map (\<lambda>ev. Anext # fst (handle_event ev)) (drawn evs))
       @ (if list_all (\<lambda>ev. snd (handle_event ev) = None) evs then [Anext] else [])"
proof (induction evs)
  case Nil
  then show ?case by simp
next
  case (Cons ev evs)
  obtain hs h where h: "handle_event ev = (hs, h)" by (cases "handle_event ev")
  show ?case
    using h Cons by (cases h) (auto split: prod.splits)
qed

lemma caught_except_lc:
  "caught e \<Longrightarrow> langchain_except (Some e) = ([Log (if e = GeneratorExit then warning else error)], None)"
  by (auto simp: caught_def)

lemma caught_except_lg: "caught e \<Longrightarrow> langgraph_except (Some e) = ([Log exception], None)"
  by (auto simp: caught_def)

lemma langchain_except_calls: "chain_calls (fst (langchain_except r)) = []"
  by (cases r) simp_all

lemma langgraph_except_calls: "graph_calls (fst (langgraph_except r)) = []"
  by (cases r) simp_all

lemma langchain_except_frames: "frames (fst (langchain_except r)) = []"
  by (cases r) (simp_all add: frames_simps)

lemma langgraph_except_frames: "frames (fst (langgraph_except r)) = []"
  by (cases r) (simp_all add: frames_simps)

lemma langchain_ainvoke_calls:
  "chain_calls (fst (langchain_ainvoke lc text)) = [langchain_call lc text]"
proof -
  obtain es r where d: "langchain_drain (elements (lc_chain lc (langchain_call lc text)))
      (raises (lc_chain lc (langchain_call lc text))) = (es, r)"
    by (cases "langchain_drain (elements (lc_chain lc (langchain_call lc text)))
      (raises (lc_chain lc (langchain_call lc text)))")
  obtain ls x where x: "langchain_except r = (ls, x)" by (cases "langchain_except r")
  have "chain_calls es = []" using langchain_drain_calls d by (metis fst_conv)
  moreover have "chain_calls ls = []" using langchain_except_calls x by (metis fst_conv)
  ultimately show ?thesis
    using d x by (cases x) (simp_all add: langchain_ainvoke_def Let_def chain_calls_append)
qed

lemma langgraph_ainvoke_calls:
  "graph_calls (fst (langgraph_ainvoke lg text)) = [langgraph_call lg text]"
proof -
  obtain es r where d: "langgraph_drain (elements (lg_graph lg (langgraph_call lg text)))
      (raises (lg_graph lg (langgraph_call lg text))) = (es, r)"
    by (cases "langgraph_drain (elements (lg_graph lg (langgraph_call lg text)))
      (raises (lg_graph lg (langgraph_call lg text)))")
  obtain ls x where x: "langgraph_except r = (ls, x)" by (cases "langgraph_except r")
  have "graph_calls es = []" using langgraph_drain_graph_calls d by (metis fst_conv)
  moreover have "graph_calls ls = []" using langgraph_except_calls x by (metis fst_conv)
  ultimately show ?thesis
    using d x by (cases x) (simp_all add: langgraph_ainvoke_def Let_def graph_calls_append)
qed

lemma contained_end_of_iteration: "contained r \<Longrightarrow> contained (end_of_iteration r)"
  by (cases r) simp_all

lemma langchain_except_contained: "contained r \<Longrightarrow> snd (langchain_except r) = None"
  by (cases r) (auto simp: caught_def)

lemma langchain_ainvoke_outcome:
  assumes "contained (raises (lc_chain lc (langchain_call lc text)))"
  shows "langchain_ainvoke lc text =
     ([Log debug, Push LLMFullResponseStartFrame DOWNSTREAM, Astream (langchain_call lc text)]
        @ fst (langchain_drain (elements (lc_chain lc (langchain_call lc text)))
                 (raises (lc_chain lc (langchain_call lc text))))
        @ fst (langchain_except (end_of_iteration (raises (lc_chain lc (langchain_call lc text)))))
        @ [Push LLMFullResponseEndFrame DOWNSTREAM], None)"
proof -
  let ?r = "end_of_iteration (raises (lc_chain lc (langchain_call lc text)))"
  have "snd (langchain_except ?r) = None"
    using assms by (intro langchain_except_contained contained_end_of_iteration)
  then obtain ls where "langchain_except ?r = (ls, None)"
    by (cases "langchain_except ?r") simp
  then show ?thesis
    by (simp add: langchain_ainvoke_def Let_def langchain_drain_eq)
qed

lemma langgraph_drain_outcome:
  "contained r \<Longrightarrow> contained (snd (langgraph_drain evs r))"
proof (cases "snd (langgraph_drain evs r)")
  case None
  then show ?thesis by simp
next
  case (Some e)
  assume "contained r"
  with Some langgraph_drain_exn[of evs r e] show ?thesis
    by (auto simp: caught_def)
qed

lemma langgraph_except_outcome:
  "contained r \<Longrightarrow> snd (langgraph_except r) = None"
  by (cases r) (auto simp: caught_def)

lemma langgraph_ainvoke_outcome:
  assumes "contained (raises (lg_graph lg (langgraph_call lg text)))"
  shows "langgraph_ainvoke lg text =
     ([Log debug, Push LLMFullResponseStartFrame DOWNSTREAM, AstreamEvents (langgraph_call lg text)]
        @ fst (langgraph_drain (elements (lg_graph lg (langgraph_call lg text)))
                 (raises (lg_graph lg (langgraph_call lg text))))
        @ fst (langgraph_except (snd (langgraph_drain (elements (lg_graph lg (langgraph_call lg text)))
                 (raises (lg_graph lg (langgraph_call lg text))))))
        @ [Push LLMFullResponseEndFrame DOWNSTREAM], None)"
proof -
  obtain es r where d: "langgraph_drain (elements (lg_graph lg (langgraph_call lg text)))
      (raises (lg_graph lg (langgraph_call lg text))) = (es, r)"
    by (cases "langgraph_drain (elements (lg_graph lg (langgraph_call lg text)))
      (raises (lg_graph lg (langgraph_call lg text)))")
  have "contained r"
    using langgraph_drain_outcome[OF assms, of "elements (lg_graph lg (langgraph_call lg text))"] d
    by simp
  then have "snd (langgraph_except r) = None" by (rule langgraph_except_outcome)
  then obtain ls where "langgraph_except r = (ls, None)" by (cases "langgraph_except r") simp
  with d show ?thesis
    by (simp add: langgraph_ainvoke_def Let_def)
qed



lemma langchain_ainvoke_frames:
  "frames (fst (langchain_ainvoke lc text)) =
     LLMFullResponseStartFrame
       # map (\<lambda>t. TextFrame (langchain_get_token_value t))
           (elements (lc_chain lc (langchain_call lc text)))
       @ (case snd (langchain_ainvoke lc text) of None \<Rightarrow> [LLMFullResponseEndFrame] | Some e \<Rightarrow> [])"
proof -
  obtain ls x where
    x: "langchain_except (end_of_iteration (raises (lc_chain lc (langchain_call lc text)))) = (ls, x)"
    by (cases "langchain_except (end_of_iteration (raises (lc_chain lc (langchain_call lc text))))")
  have l: "frames ls = []" using langchain_except_frames x by (metis fst_conv)
  have m: "frames (concat (map (\<lambda>t. [Anext, Push (TextFrame (langchain_get_token_value t)) DOWNSTREAM]) ts))
      = map (\<lambda>t. TextFrame (langchain_get_token_value t)) ts" for ts
    by (induction ts) (simp_all add: frames_simps)
  show ?thesis
    using x l by (cases x)
      (simp_all add: langchain_ainvoke_def Let_def langchain_drain_eq frames_simps frames_append m)
qed

lemma langgraph_drain_frames:
  "frames (fst (langgraph_drain evs r)) =
     concat (map (\<lambda>ev. frames (fst (handle_event ev))) (drawn evs))"
proof -
  have "frames (concat (map (\<lambda>ev. Anext # fst (handle_event ev)) xs))
      = concat (map (\<lambda>ev. frames (fst (handle_event ev))) xs)" for xs
    by (induction xs) (simp_all add: frames_simps frames_append)
  then show ?thesis
    by (simp add: langgraph_drain_drawn frames_append frames_simps)
qed

lemma langgraph_ainvoke_frames:
  "frames (fst (langgraph_ainvoke lg text)) =
     LLMFullResponseStartFrame
       # frames (fst (langgraph_drain (elements (lg_graph lg (langgraph_call lg text)))
                        (raises (lg_graph lg (langgraph_call lg text)))))
       @ (case snd (langgraph_ainvoke lg text) of None \<Rightarrow> [LLMFullResponseEndFrame] | Some e \<Rightarrow> [])"
proof -
  obtain es r where d: "langgraph_drain (elements (lg_graph lg (langgraph_call lg text)))
      (raises (lg_graph lg (langgraph_call lg text))) = (es, r)"
    by (cases "langgraph_drain (elements (lg_graph lg (langgraph_call lg text)))
      (raises (lg_graph lg (langgraph_call lg text)))")
  obtain ls x where x: "langgraph_except r = (ls, x)" by (cases "langgraph_except r")
  have l: "frames ls = []" using langgraph_except_frames x by (metis fst_conv)
  show ?thesis
    using d x l by (cases x)
      (simp_all add: langgraph_ainvoke_def Let_def frames_simps frames_append)
qed

lemma drawn_all: "list_all (\<lambda>ev. snd (handle_event ev) = None) evs \<Longrightarrow> drawn evs = evs"
  by (induction evs) simp_all

lemma last_message_nonempty: "messages \<noteq> [] \<Longrightarrow> last_message messages = Inr (last messages)"
  by (cases messages) simp_all

lemma payload_not_trigger: "list_all payload fs \<Longrightarrow> list_all (\<lambda>f. \<not> trigger f) fs"
proof (induction fs)
  case Nil
  then show ?case by simp
next
  case (Cons f fs)
  then show ?case by (cases f) simp_all
qed

lemma langchain_ainvoke_no_trigger:
  "list_all (\<lambda>f. \<not> trigger f) (frames (fst (langchain_ainvoke lc text)))"
proof -
  have "list_all (\<lambda>f. \<not> trigger f) (map (\<lambda>t. TextFrame (langchain_get_token_value t)) ts)" for ts
    by (induction ts) simp_all
  then show ?thesis
    by (simp add: langchain_ainvoke_frames split: option.splits)
qed

lemma langgraph_ainvoke_no_trigger:
  "list_all (\<lambda>f. \<not> trigger f) (frames (fst (langgraph_ainvoke lg text)))"
  using payload_not_trigger[OF langgraph_drain_payload]
  by (simp add: langgraph_ainvoke_frames split: option.splits)

lemma push_docs_documents:
  "push_docs (map Document ds) =
     (map (\<lambda>d. Push (ToolResultMessage d ''tool_result'') DOWNSTREAM) ds, None)"
  by (induction ds) simp_all

lemma handle_event_tool_start:
  "py_getitem ev ''event'' = Inr (PStr ''on_tool_start'') \<Longrightarrow> frames (fst (handle_event ev)) = []"
  by (simp add: handle_event_def frames_simps split: sum.splits)

lemma handle_event_other:
  "py_getitem ev ''event'' = Inr kind \<Longrightarrow> kind \<noteq> PStr ''on_chat_model_stream'' \<Longrightarrow>
   kind \<noteq> PStr ''on_tool_start'' \<Longrightarrow> kind \<noteq> PStr ''on_retriever_end'' \<Longrightarrow>
   handle_event ev = ([], None)"
  by (simp add: handle_event_def)

lemma langgraph_drain_skip:
  "handle_event ev = ([], None) \<Longrightarrow>
     frames (fst (langgraph_drain (pre @ ev # post) r)) = frames (fst (langgraph_drain (pre @ post) r))
     \<and> snd (langgraph_drain (pre @ ev # post) r) = snd (langgraph_drain (pre @ post) r)"
proof (induction pre)
  case Nil
  then show ?case by (simp add: frames_simps split: prod.splits)
next
  case (Cons p pre)
  obtain hs h where h: "handle_event p = (hs, h)" by (cases "handle_event p")
  show ?case
    using h Cons by (cases h) (auto simp: frames_simps frames_append split: prod.splits)
qed

lemma drawn_stop:
  "list_all (\<lambda>v. snd (handle_event v) = None) pre \<Longrightarrow> snd (handle_event ev) \<noteq> None \<Longrightarrow>
     drawn (pre @ ev # post) = pre @ [ev]"
  by (induction pre) auto

lemma unrecognized_token:
  "(\<forall>s. x \<noteq> PStr s) \<and> (\<forall>t d. x \<noteq> AIMessageChunk t d) \<Longrightarrow> langchain_get_token_value x = []"
  by (cases x) simp_all

lemma langchain_except_escape:
  "\<not> caught e \<Longrightarrow> langchain_except (end_of_iteration (Some e)) = ([], Some e)"
  by (auto simp: caught_def)

lemma langgraph_except_escape:
  "\<not> caught e \<Longrightarrow> langgraph_except (end_of_iteration (Some e)) = ([], Some e)"
  by (auto simp: caught_def)

lemma langchain_ainvoke_escape:
  assumes "raises (lc_chain lc (langchain_call lc q)) = Some e" and "\<not> caught e"
  shows "langchain_ainvoke lc q =
     ([Log debug, Push LLMFullResponseStartFrame DOWNSTREAM, Astream (langchain_call lc q)]
        @ fst (langchain_drain (elements (lc_chain lc (langchain_call lc q))) (Some e)), Some e)"
  using assms langchain_except_escape[of e]
  by (simp add: langchain_ainvoke_def Let_def langchain_drain_eq)

lemma langgraph_drain_all:
  "list_all (\<lambda>ev. snd (handle_event ev) = None) evs \<Longrightarrow>
     snd (langgraph_drain evs r) = end_of_iteration r"
proof (induction evs)
  case Nil
  then show ?case by simp
next
  case (Cons ev evs)
  obtain hs h where h: "handle_event ev = (hs, h)" by (cases "handle_event ev")
  show ?case
    using h Cons by (cases h) (auto split: prod.splits)
qed

lemma langgraph_ainvoke_escape:
  assumes "raises (lg_graph lg (langgraph_call lg q)) = Some e" and "\<not> caught e"
    and "list_all (\<lambda>ev. snd (handle_event ev) = None) (elements (lg_graph lg (langgraph_call lg q)))"
  shows "langgraph_ainvoke lg q =
     ([Log debug, Push LLMFullResponseStartFrame DOWNSTREAM, AstreamEvents (langgraph_call lg q)]
        @ fst (langgraph_drain (elements (lg_graph lg (langgraph_call lg q))) (Some e)), Some e)"
proof -
  let ?d = "langgraph_drain (elements (lg_graph lg (langgraph_call lg q))) (Some e)"
  have "snd ?d = end_of_iteration (Some e)"
    using assms(3) by (rule langgraph_drain_all)
  then obtain es where d: "?d = (es, end_of_iteration (Some e))"
    by (cases ?d) simp
  show ?thesis
    using assms(1) d langgraph_except_escape[OF assms(2)]
    by (simp add: langgraph_ainvoke_def Let_def)
qed

lemma langchain_pass: "\<not> trigger f \<Longrightarrow> langchain_process_frame lc f d = ([Push f d], None)"
  by (cases f) simp_all

lemma langgraph_pass: "\<not> trigger f \<Longrightarrow> langgraph_process_frame lg f d = ([Push f d], None)"
  by (cases f) simp_all

section \<open>The token extractor\<close>

text \<open>
  Claim C5. \<^verbatim>\<open>__get_token_value\<close> of either processor returns a plain string
  unchanged, the text content of a message chunk, and the empty string for a value of
  any other shape; it has no failing branch. Hence a plain string and a chunk with
  the same text give the same result.
\<close>

theorem token_extractor_contract:
  "langchain_get_token_value (PStr s) = s
   \<and> langgraph_get_token_value (PStr s) = s
   \<and> langchain_get_token_value (AIMessageChunk t d) = t
   \<and> langgraph_get_token_value (AIMessageChunk t d) = t
   \<and> ((\<forall>s'. x \<noteq> PStr s') \<and> (\<forall>t' d'. x \<noteq> AIMessageChunk t' d')
        \<longrightarrow> langchain_get_token_value x = [] \<and> langgraph_get_token_value x = [])
   \<and> langchain_get_token_value (PStr t) = langchain_get_token_value (AIMessageChunk t d)
   \<and> langgraph_get_token_value (PStr t) = langgraph_get_token_value (AIMessageChunk t d)"
  by (cases x) simp_all

theorem token_extractor_contract_witness:
  "langchain_get_token_value (PStr ''Hi'') = ''Hi''
   \<and> langgraph_get_token_value (AIMessageChunk ''Hi'' PNone) = ''Hi''
   \<and> (\<forall>s'. PInt 7 \<noteq> PStr s') \<and> (\<forall>t' d'. PInt 7 \<noteq> AIMessageChunk t' d')
   \<and> langchain_get_token_value (PInt 7) = [] \<and> langgraph_get_token_value (PInt 7) = []"
  using token_extractor_contract [of "''Hi''" "''Hi''" PNone "PInt 7"] by simp

section \<open>The pipeline adapter\<close>

text \<open>
  Claim C9. A frame that is not an \<open>LLMMessagesFrame\<close> is pushed on as it is, in the
  direction it came with, and nothing else happens: no other frame is pushed and no
  exception is raised. For a sequence of such frames, handled one after the other,
  the frames pushed are the sequence itself, in arrival order.
\<close>

theorem pass_through:
  "(\<not> trigger f \<longrightarrow>
      langchain_process_frame lc f d = ([Push f d], None)
      \<and> langgraph_process_frame lg f d = ([Push f d], None))
   \<and> (list_all (\<lambda>p. \<not> trigger (fst p)) ps \<longrightarrow>
      pushed (concat (map (\<lambda>p. fst (langchain_process_frame lc (fst p) (snd p))) ps)) = ps
      \<and> pushed (concat (map (\<lambda>p. fst (langgraph_process_frame lg (fst p) (snd p))) ps)) = ps
      \<and> list_all (\<lambda>p. snd (langchain_process_frame lc (fst p) (snd p)) = None) ps
      \<and> list_all (\<lambda>p. snd (langgraph_process_frame lg (fst p) (snd p)) = None) ps)"
proof -
  have seq: "list_all (\<lambda>p. \<not> trigger (fst p)) ps \<Longrightarrow>
      pushed (concat (map (\<lambda>p. fst (langchain_process_frame lc (fst p) (snd p))) ps)) = ps
      \<and> pushed (concat (map (\<lambda>p. fst (langgraph_process_frame lg (fst p) (snd p))) ps)) = ps
      \<and> list_all (\<lambda>p. snd (langchain_process_frame lc (fst p) (snd p)) = None) ps
      \<and> list_all (\<lambda>p. snd (langgraph_process_frame lg (fst p) (snd p)) = None) ps"
    by (induction ps) (simp_all add: langchain_pass langgraph_pass)
  show ?thesis
    using seq by (simp add: langchain_pass langgraph_pass)
qed

theorem pass_through_witness:
  "\<not> trigger (OtherFrame ''AudioRawFrame'')
   \<and> langchain_process_frame (langchain_init (\<lambda>c. \<lparr>elements = [], raises = None\<rparr>) ''input'')
        (OtherFrame ''AudioRawFrame'') UPSTREAM = ([Push (OtherFrame ''AudioRawFrame'') UPSTREAM], None)
   \<and> langgraph_process_frame (langgraph_init (\<lambda>c. \<lparr>elements = [], raises = None\<rparr>))
        (OtherFrame ''AudioRawFrame'') UPSTREAM = ([Push (OtherFrame ''AudioRawFrame'') UPSTREAM], None)
   \<and> list_all (\<lambda>p. \<not> trigger (fst p)) [(TextFrame ''a'', DOWNSTREAM), (OtherFrame ''EndFrame'', UPSTREAM)]
   \<and> pushed (concat (map (\<lambda>p. fst (langchain_process_frame
         (langchain_init (\<lambda>c. \<lparr>elements = [], raises = None\<rparr>) ''input'') (fst p) (snd p)))
         [(TextFrame ''a'', DOWNSTREAM), (OtherFrame ''EndFrame'', UPSTREAM)]))
       = [(TextFrame ''a'', DOWNSTREAM), (OtherFrame ''EndFrame'', UPSTREAM)]"
  using pass_through [of "OtherFrame ''AudioRawFrame''"
      "langchain_init (\<lambda>c. \<lparr>elements = [], raises = None\<rparr>) ''input''" UPSTREAM
      "langgraph_init (\<lambda>c. \<lparr>elements = [], raises = None\<rparr>)"
      "[(TextFrame ''a'', DOWNSTREAM), (OtherFrame ''EndFrame'', UPSTREAM)]"]
  by simp

text \<open>
  Claim C10. On an \<open>LLMMessagesFrame\<close> with an empty list of messages,
  \<^verbatim>\<open>process_frame\<close> of either processor raises \<^verbatim>\<open>IndexError\<close> after its debug
  log only: no frame has been pushed and the backend has not been called, so the
  framing bracket is not produced and the exception reaches the caller.
\<close>

theorem empty_trigger_fails:
  "langchain_process_frame lc (LLMMessagesFrame []) direction = ([Log debug], Some IndexError)
   \<and> langgraph_process_frame lg (LLMMessagesFrame []) direction = ([Log debug], Some IndexError)
   \<and> pushed (fst (langchain_process_frame lc (LLMMessagesFrame []) direction)) = []
   \<and> chain_calls (fst (langchain_process_frame lc (LLMMessagesFrame []) direction)) = []
   \<and> pushed (fst (langgraph_process_frame lg (LLMMessagesFrame []) direction)) = []
   \<and> graph_calls (fst (langgraph_process_frame lg (LLMMessagesFrame []) direction)) = []"
  by simp

section \<open>The streaming bridge\<close>




text \<open>
  Claim C2 says that no fault raised by the stream while it is drained escapes
  \<^verbatim>\<open>_ainvoke\<close>. A stream that ends in \<open>CancelledError\<close> is not caught by either
  \<^verbatim>\<open>except\<close> clause: the exception is the result of \<^verbatim>\<open>_ainvoke\<close>, nothing is
  logged and no end frame is pushed.
\<close>

theorem fault_containment_counterexample:
  "langgraph_ainvoke (langgraph_init (\<lambda>c. \<lparr>elements = [PDict [(''event'', PStr ''on_chat_model_stream''), (''data'', PDict [(''chunk'', PStr ''Hi'')])]], raises = Some CancelledError\<rparr>)) ''q''
     = ([Log debug, Push LLMFullResponseStartFrame DOWNSTREAM,
         AstreamEvents \<lparr>human_message = ''q'', thread_id = None\<rparr>,
         Anext, Push LLMResponseStartFrame DOWNSTREAM, Push (TextFrame ''Hi'') DOWNSTREAM,
         Push LLMResponseEndFrame DOWNSTREAM, Anext], Some CancelledError)
   \<and> langchain_ainvoke (langchain_init (\<lambda>c. \<lparr>elements = [], raises = Some CancelledError\<rparr>) ''input'') ''q''
     = ([Log debug, Push LLMFullResponseStartFrame DOWNSTREAM,
         Astream \<lparr>inputs = [''input'' \<mapsto> ''q''], configurable = Map.empty\<rparr>, Anext],
        Some CancelledError)"
  by (simp add: langchain_init_def langgraph_init_def langchain_ainvoke_def langgraph_ainvoke_def
      langchain_call_def langgraph_call_def handle_event_def)

text \<open>
  Claim C2, as amended. When the stream raises a \<^verbatim>\<open>GeneratorExit\<close> or an
  \<^verbatim>\<open>Exception\<close> while it is drained, \<^verbatim>\<open>_ainvoke\<close> returns normally: after the
  effects of the elements drained so far, the only further effects are one log call
  and the push of \<open>LLMFullResponseEndFrame\<close>; a chain that yields \<open>Hi\<close> and then raises
  gives exactly the start frame, \<open>TextFrame Hi\<close> and the end frame. (A
  \<open>StopAsyncIteration\<close> is no fault: the loop takes it as exhaustion.) When the stream
  raises any other exception (\<open>CancelledError\<close>, \<open>KeyboardInterrupt\<close>, \<open>SystemExit\<close>),
  \<^verbatim>\<open>_ainvoke\<close> raises it to its caller after the effects of the elements drained,
  with no log call and no end frame.
\<close>

theorem fault_containment:
  "(raises (lc_chain lc (langchain_call lc q)) = Some e \<and> caught e \<and> e \<noteq> StopAsyncIteration
      \<longrightarrow>
      langchain_ainvoke lc q =
        ([Log debug, Push LLMFullResponseStartFrame DOWNSTREAM, Astream (langchain_call lc q)]
           @ fst (langchain_drain (elements (lc_chain lc (langchain_call lc q))) (Some e))
           @ [Log (if e = GeneratorExit then warning else error),
              Push LLMFullResponseEndFrame DOWNSTREAM], None)
      \<and> frames (fst (langchain_ainvoke lc q)) =
          LLMFullResponseStartFrame
            # map (\<lambda>t. TextFrame (langchain_get_token_value t))
                (elements (lc_chain lc (langchain_call lc q)))
            @ [LLMFullResponseEndFrame])
   \<and> (raises (lg_graph lg (langgraph_call lg p)) = Some e' \<and> caught e' \<and> e' \<noteq> StopAsyncIteration
      \<longrightarrow>
      langgraph_ainvoke lg p =
        ([Log debug, Push LLMFullResponseStartFrame DOWNSTREAM, AstreamEvents (langgraph_call lg p)]
           @ fst (langgraph_drain (elements (lg_graph lg (langgraph_call lg p))) (Some e'))
           @ [Log exception, Push LLMFullResponseEndFrame DOWNSTREAM], None))
   \<and> (raises (lc_chain lx (langchain_call lx qx)) = Some x \<and> \<not> caught x \<longrightarrow>
      langchain_ainvoke lx qx =
        ([Log debug, Push LLMFullResponseStartFrame DOWNSTREAM, Astream (langchain_call lx qx)]
           @ fst (langchain_drain (elements (lc_chain lx (langchain_call lx qx))) (Some x)), Some x))
   \<and> (raises (lg_graph gx (langgraph_call gx px)) = Some x' \<and> \<not> caught x'
      \<and> list_all (\<lambda>ev. snd (handle_event ev) = None) (elements (lg_graph gx (langgraph_call gx px)))
      \<longrightarrow>
      langgraph_ainvoke gx px =
        ([Log debug, Push LLMFullResponseStartFrame DOWNSTREAM, AstreamEvents (langgraph_call gx px)]
           @ fst (langgraph_drain (elements (lg_graph gx (langgraph_call gx px))) (Some x')), Some x'))"
proof (intro conjI impI)
  assume a: "raises (lc_chain lc (langchain_call lc q)) = Some e \<and> caught e \<and> e \<noteq> StopAsyncIteration"
  then have o: "contained (raises (lc_chain lc (langchain_call lc q)))" by simp
  show "langchain_ainvoke lc q =
        ([Log debug, Push LLMFullResponseStartFrame DOWNSTREAM, Astream (langchain_call lc q)]
           @ fst (langchain_drain (elements (lc_chain lc (langchain_call lc q))) (Some e))
           @ [Log (if e = GeneratorExit then warning else error),
              Push LLMFullResponseEndFrame DOWNSTREAM], None)"
    using a caught_except_lc[of e] by (simp add: langchain_ainvoke_outcome[OF o])
  show "frames (fst (langchain_ainvoke lc q)) =
          LLMFullResponseStartFrame
            # map (\<lambda>t. TextFrame (langchain_get_token_value t))
                (elements (lc_chain lc (langchain_call lc q)))
            @ [LLMFullResponseEndFrame]"
    by (simp add: langchain_ainvoke_outcome[OF o] frames_simps frames_append
        langchain_drain_frames langchain_except_frames)
next
  assume a: "raises (lg_graph lg (langgraph_call lg p)) = Some e' \<and> caught e' \<and> e' \<noteq> StopAsyncIteration"
  then have o: "contained (raises (lg_graph lg (langgraph_call lg p)))" by simp
  let ?d = "langgraph_drain (elements (lg_graph lg (langgraph_call lg p))) (Some e')"
  have "snd ?d \<noteq> None"
  proof
    assume "snd ?d = None"
    then have "end_of_iteration (Some e') = None" by (rule langgraph_drain_None)
    with a show False by simp
  qed
  then obtain y where y: "snd ?d = Some y" by blast
  have "contained (snd ?d)" using a by (intro langgraph_drain_outcome) simp
  with y have "caught y" by simp
  then have "langgraph_except (snd ?d) = ([Log exception], None)"
    using y caught_except_lg by simp
  then show "langgraph_ainvoke lg p =
        ([Log debug, Push LLMFullResponseStartFrame DOWNSTREAM, AstreamEvents (langgraph_call lg p)]
           @ fst ?d @ [Log exception, Push LLMFullResponseEndFrame DOWNSTREAM], None)"
    using a by (simp add: langgraph_ainvoke_outcome[OF o])
next
  assume "raises (lc_chain lx (langchain_call lx qx)) = Some x \<and> \<not> caught x"
  then show "langchain_ainvoke lx qx =
        ([Log debug, Push LLMFullResponseStartFrame DOWNSTREAM, Astream (langchain_call lx qx)]
           @ fst (langchain_drain (elements (lc_chain lx (langchain_call lx qx))) (Some x)), Some x)"
    by (intro langchain_ainvoke_escape) simp_all
next
  assume "raises (lg_graph gx (langgraph_call gx px)) = Some x' \<and> \<not> caught x'
      \<and> list_all (\<lambda>ev. snd (handle_event ev) = None) (elements (lg_graph gx (langgraph_call gx px)))"
  then show "langgraph_ainvoke gx px =
        ([Log debug, Push LLMFullResponseStartFrame DOWNSTREAM, AstreamEvents (langgraph_call gx px)]
           @ fst (langgraph_drain (elements (lg_graph gx (langgraph_call gx px))) (Some x')), Some x')"
    by (intro langgraph_ainvoke_escape) simp_all
qed

theorem fault_containment_witness:
  "raises (lc_chain (langchain_init (\<lambda>c. \<lparr>elements = [PStr ''Hi''], raises = Some (OtherException ''RuntimeError'')\<rparr>) ''input'') (langchain_call (langchain_init (\<lambda>c. \<lparr>elements = [PStr ''Hi''], raises = Some (OtherException ''RuntimeError'')\<rparr>) ''input'') ''q'')) = Some (OtherException ''RuntimeError'')
   \<and> caught (OtherException ''RuntimeError'')
   \<and> OtherException ''RuntimeError'' \<noteq> StopAsyncIteration
   \<and> langchain_ainvoke (langchain_init (\<lambda>c. \<lparr>elements = [PStr ''Hi''], raises = Some (OtherException ''RuntimeError'')\<rparr>) ''input'') ''q''
     = ([Log debug, Push LLMFullResponseStartFrame DOWNSTREAM,
         Astream \<lparr>inputs = [''input'' \<mapsto> ''q''], configurable = Map.empty\<rparr>,
         Anext, Push (TextFrame ''Hi'') DOWNSTREAM, Anext,
         Log error, Push LLMFullResponseEndFrame DOWNSTREAM], None)
   \<and> frames (fst (langchain_ainvoke (langchain_init (\<lambda>c. \<lparr>elements = [PStr ''Hi''], raises = Some (OtherException ''RuntimeError'')\<rparr>) ''input'') ''q''))
     = [LLMFullResponseStartFrame, TextFrame ''Hi'', LLMFullResponseEndFrame]
   \<and> raises (lg_graph (langgraph_init (\<lambda>c. \<lparr>elements = [PDict [(''event'', PStr ''on_chat_model_stream''), (''data'', PDict [(''chunk'', PStr ''Hi'')])]], raises = Some GeneratorExit\<rparr>)) (langgraph_call (langgraph_init (\<lambda>c. \<lparr>elements = [PDict [(''event'', PStr ''on_chat_model_stream''), (''data'', PDict [(''chunk'', PStr ''Hi'')])]], raises = Some GeneratorExit\<rparr>)) ''q'')) = Some GeneratorExit
   \<and> caught GeneratorExit
   \<and> GeneratorExit \<noteq> StopAsyncIteration
   \<and> langgraph_ainvoke (langgraph_init (\<lambda>c. \<lparr>elements = [PDict [(''event'', PStr ''on_chat_model_stream''), (''data'', PDict [(''chunk'', PStr ''Hi'')])]], raises = Some GeneratorExit\<rparr>)) ''q''
     = ([Log debug, Push LLMFullResponseStartFrame DOWNSTREAM,
         AstreamEvents \<lparr>human_message = ''q'', thread_id = None\<rparr>,
         Anext, Push LLMResponseStartFrame DOWNSTREAM, Push (TextFrame ''Hi'') DOWNSTREAM,
         Push LLMResponseEndFrame DOWNSTREAM, Anext,
         Log exception, Push LLMFullResponseEndFrame DOWNSTREAM], None)
   \<and> raises (lc_chain (langchain_init (\<lambda>c. \<lparr>elements = [PStr ''Hi''], raises = Some SystemExit\<rparr>) ''input'') (langchain_call (langchain_init (\<lambda>c. \<lparr>elements = [PStr ''Hi''], raises = Some SystemExit\<rparr>) ''input'') ''q'')) = Some SystemExit
   \<and> \<not> caught SystemExit
   \<and> langchain_ainvoke (langchain_init (\<lambda>c. \<lparr>elements = [PStr ''Hi''], raises = Some SystemExit\<rparr>) ''input'') ''q''
     = ([Log debug, Push LLMFullResponseStartFrame DOWNSTREAM,
         Astream \<lparr>inputs = [''input'' \<mapsto> ''q''], configurable = Map.empty\<rparr>,
         Anext, Push (TextFrame ''Hi'') DOWNSTREAM, Anext], Some SystemExit)
   \<and> raises (lg_graph (langgraph_init (\<lambda>c. \<lparr>elements = [PDict [(''event'', PStr ''on_chat_model_stream''), (''data'', PDict [(''chunk'', PStr ''Hi'')])]], raises = Some CancelledError\<rparr>)) (langgraph_call (langgraph_init (\<lambda>c. \<lparr>elements = [PDict [(''event'', PStr ''on_chat_model_stream''), (''data'', PDict [(''chunk'', PStr ''Hi'')])]], raises = Some CancelledError\<rparr>)) ''q'')) = Some CancelledError
   \<and> \<not> caught CancelledError
   \<and> list_all (\<lambda>ev. snd (handle_event ev) = None)
        (elements (lg_graph (langgraph_init (\<lambda>c. \<lparr>elements = [PDict [(''event'', PStr ''on_chat_model_stream''), (''data'', PDict [(''chunk'', PStr ''Hi'')])]], raises = Some CancelledError\<rparr>)) (langgraph_call (langgraph_init (\<lambda>c. \<lparr>elements = [PDict [(''event'', PStr ''on_chat_model_stream''), (''data'', PDict [(''chunk'', PStr ''Hi'')])]], raises = Some CancelledError\<rparr>)) ''q'')))
   \<and> snd (langgraph_ainvoke (langgraph_init (\<lambda>c. \<lparr>elements = [PDict [(''event'', PStr ''on_chat_model_stream''), (''data'', PDict [(''chunk'', PStr ''Hi'')])]], raises = Some CancelledError\<rparr>)) ''q'') = Some CancelledError"
  using fault_containment [where lc = "(langchain_init (\<lambda>c. \<lparr>elements = [PStr ''Hi''], raises = Some (OtherException ''RuntimeError'')\<rparr>) ''input'')" and q = "''q''"
      and e = "OtherException ''RuntimeError''"
      and lg = "(langgraph_init (\<lambda>c. \<lparr>elements = [PDict [(''event'', PStr ''on_chat_model_stream''), (''data'', PDict [(''chunk'', PStr ''Hi'')])]], raises = Some GeneratorExit\<rparr>))" and p = "''q''" and e' = GeneratorExit
      and lx = "(langchain_init (\<lambda>c. \<lparr>elements = [PStr ''Hi''], raises = Some SystemExit\<rparr>) ''input'')" and qx = "''q''" and x = SystemExit
      and gx = "(langgraph_init (\<lambda>c. \<lparr>elements = [PDict [(''event'', PStr ''on_chat_model_stream''), (''data'', PDict [(''chunk'', PStr ''Hi'')])]], raises = Some CancelledError\<rparr>))" and px = "''q''" and x' = CancelledError]
  by (simp add: langchain_init_def langgraph_init_def langchain_call_def langgraph_call_def
      caught_def frames_simps handle_event_def)

text \<open>
  Claim C4 says that the payload frames are the in-order concatenation of the
  translations of the elements of the stream, for every stream. In
  \<^verbatim>\<open>LanggraphProcessor\<close> the loop ends at the first element whose handling raises:
  for a model chunk \<open>x\<close>, the number 5 and a model chunk \<open>y\<close>, the frames of \<open>y\<close> are
  part of the concatenation over the elements, but they are not pushed.
\<close>

theorem order_preservation_counterexample:
  "frames (fst (langgraph_ainvoke (langgraph_init (\<lambda>c. \<lparr>elements = [PDict [(''event'', PStr ''on_chat_model_stream''), (''data'', PDict [(''chunk'', PStr ''x'')])], PInt 5, PDict [(''event'', PStr ''on_chat_model_stream''), (''data'', PDict [(''chunk'', PStr ''y'')])]], raises = None\<rparr>)) ''q''))
     = [LLMFullResponseStartFrame, LLMResponseStartFrame, TextFrame ''x'', LLMResponseEndFrame,
        LLMFullResponseEndFrame]
   \<and> frames (fst (handle_event (PDict [(''event'', PStr ''on_chat_model_stream''), (''data'', PDict [(''chunk'', PStr ''x'')])])))
       @ frames (fst (handle_event (PInt 5)))
       @ frames (fst (handle_event (PDict [(''event'', PStr ''on_chat_model_stream''), (''data'', PDict [(''chunk'', PStr ''y'')])])))
     = [LLMResponseStartFrame, TextFrame ''x'', LLMResponseEndFrame,
        LLMResponseStartFrame, TextFrame ''y'', LLMResponseEndFrame]
   \<and> snd (langgraph_ainvoke (langgraph_init (\<lambda>c. \<lparr>elements = [PDict [(''event'', PStr ''on_chat_model_stream''), (''data'', PDict [(''chunk'', PStr ''x'')])], PInt 5, PDict [(''event'', PStr ''on_chat_model_stream''), (''data'', PDict [(''chunk'', PStr ''y'')])]], raises = None\<rparr>)) ''q'') = None"
  by (simp add: langgraph_init_def langgraph_ainvoke_def langgraph_call_def handle_event_def
      frames_simps)

text \<open>
  Claim C4, as amended. The frames pushed follow the order of the stream, and each
  element's frames are pushed before the next element is requested. In
  \<^verbatim>\<open>LangchainProcessor\<close> the frames between the start and the end frame are the
  translations of all the elements, in order. In \<^verbatim>\<open>LanggraphProcessor\<close> they are
  the concatenation, in order, of what the handlers push for the elements drawn from
  the stream: all the elements when no handler raises, and otherwise the elements up
  to and including the first one whose handler raises.
\<close>

theorem order_preservation:
  "fst (langchain_drain tokens r) =
     concat (map (\<lambda>t. [Anext, Push (TextFrame (langchain_get_token_value t)) DOWNSTREAM]) tokens)
       @ [Anext]
   \<and> frames (fst (langchain_ainvoke lc q)) =
       LLMFullResponseStartFrame
         # map (\<lambda>t. TextFrame (langchain_get_token_value t))
             (elements (lc_chain lc (langchain_call lc q)))
         @ (case snd (langchain_ainvoke lc q) of
              None \<Rightarrow> [LLMFullResponseEndFrame] | Some e \<Rightarrow> [])
   \<and> fst (langgraph_drain events r) =
       concat (map (\<lambda>ev. Anext # fst (handle_event ev)) (drawn events))
         @ (if list_all (\<lambda>ev. snd (handle_event ev) = None) events then [Anext] else [])
   \<and> frames (fst (langgraph_ainvoke lg p)) =
       LLMFullResponseStartFrame
         # concat (map (\<lambda>ev. frames (fst (handle_event ev)))
             (drawn (elements (lg_graph lg (langgraph_call lg p)))))
         @ (case snd (langgraph_ainvoke lg p) of
              None \<Rightarrow> [LLMFullResponseEndFrame] | Some e \<Rightarrow> [])
   \<and> (list_all (\<lambda>ev. snd (handle_event ev) = None) events \<longrightarrow> drawn events = events)
   \<and> (list_all (\<lambda>ev. snd (handle_event ev) = None) good \<and> snd (handle_event bad) \<noteq> None \<longrightarrow>
        drawn (good @ bad # rest) = good @ [bad])"
proof (intro conjI impI)
  show "fst (langchain_drain tokens r) =
     concat (map (\<lambda>t. [Anext, Push (TextFrame (langchain_get_token_value t)) DOWNSTREAM]) tokens)
       @ [Anext]"
    by (simp add: langchain_drain_eq)
  show "frames (fst (langchain_ainvoke lc q)) =
       LLMFullResponseStartFrame
         # map (\<lambda>t. TextFrame (langchain_get_token_value t))
             (elements (lc_chain lc (langchain_call lc q)))
         @ (case snd (langchain_ainvoke lc q) of
              None \<Rightarrow> [LLMFullResponseEndFrame] | Some e \<Rightarrow> [])"
    by (rule langchain_ainvoke_frames)
  show "fst (langgraph_drain events r) =
       concat (map (\<lambda>ev. Anext # fst (handle_event ev)) (drawn events))
         @ (if list_all (\<lambda>ev. snd (handle_event ev) = None) events then [Anext] else [])"
    by (rule langgraph_drain_drawn)
  show "frames (fst (langgraph_ainvoke lg p)) =
       LLMFullResponseStartFrame
         # concat (map (\<lambda>ev. frames (fst (handle_event ev)))
             (drawn (elements (lg_graph lg (langgraph_call lg p)))))
         @ (case snd (langgraph_ainvoke lg p) of
              None \<Rightarrow> [LLMFullResponseEndFrame] | Some e \<Rightarrow> [])"
    by (simp add: langgraph_ainvoke_frames langgraph_drain_frames)
  show "drawn events = events" if "list_all (\<lambda>ev. snd (handle_event ev) = None) events"
    using that by (rule drawn_all)
  show "drawn (good @ bad # rest) = good @ [bad]"
    if "list_all (\<lambda>ev. snd (handle_event ev) = None) good \<and> snd (handle_event bad) \<noteq> None"
    using that by (intro drawn_stop) simp_all
qed

theorem order_preservation_witness:
  "list_all (\<lambda>ev. snd (handle_event ev) = None) [PDict [(''event'', PStr ''on_chat_model_stream''), (''data'', PDict [(''chunk'', PStr ''x'')])], PDict [(''event'', PStr ''on_chat_model_stream''), (''data'', PDict [(''chunk'', PStr ''y'')])]]
   \<and> drawn [PDict [(''event'', PStr ''on_chat_model_stream''), (''data'', PDict [(''chunk'', PStr ''x'')])], PDict [(''event'', PStr ''on_chat_model_stream''), (''data'', PDict [(''chunk'', PStr ''y'')])]] = [PDict [(''event'', PStr ''on_chat_model_stream''), (''data'', PDict [(''chunk'', PStr ''x'')])], PDict [(''event'', PStr ''on_chat_model_stream''), (''data'', PDict [(''chunk'', PStr ''y'')])]]
   \<and> frames (fst (langgraph_drain [PDict [(''event'', PStr ''on_chat_model_stream''), (''data'', PDict [(''chunk'', PStr ''x'')])], PDict [(''event'', PStr ''on_chat_model_stream''), (''data'', PDict [(''chunk'', PStr ''y'')])]] None))
     = [LLMResponseStartFrame, TextFrame ''x'', LLMResponseEndFrame,
        LLMResponseStartFrame, TextFrame ''y'', LLMResponseEndFrame]
   \<and> list_all (\<lambda>ev. snd (handle_event ev) = None) [PDict [(''event'', PStr ''on_chat_model_stream''), (''data'', PDict [(''chunk'', PStr ''x'')])]]
   \<and> snd (handle_event (PInt 5)) \<noteq> None
   \<and> drawn ([PDict [(''event'', PStr ''on_chat_model_stream''), (''data'', PDict [(''chunk'', PStr ''x'')])]] @ PInt 5 # [PDict [(''event'', PStr ''on_chat_model_stream''), (''data'', PDict [(''chunk'', PStr ''y'')])]]) = [PDict [(''event'', PStr ''on_chat_model_stream''), (''data'', PDict [(''chunk'', PStr ''x'')])]] @ [PInt 5]
   \<and> frames (fst (langgraph_ainvoke (langgraph_init (\<lambda>c. \<lparr>elements = [PDict [(''event'', PStr ''on_chat_model_stream''), (''data'', PDict [(''chunk'', PStr ''x'')])], PInt 5, PDict [(''event'', PStr ''on_chat_model_stream''), (''data'', PDict [(''chunk'', PStr ''y'')])]], raises = None\<rparr>)) ''q''))
     = [LLMFullResponseStartFrame, LLMResponseStartFrame, TextFrame ''x'', LLMResponseEndFrame,
        LLMFullResponseEndFrame]"
  using order_preservation [where events = "[PDict [(''event'', PStr ''on_chat_model_stream''), (''data'', PDict [(''chunk'', PStr ''x'')])], PDict [(''event'', PStr ''on_chat_model_stream''), (''data'', PDict [(''chunk'', PStr ''y'')])]]" and r = None
      and good = "[PDict [(''event'', PStr ''on_chat_model_stream''), (''data'', PDict [(''chunk'', PStr ''x'')])]]" and bad = "PInt 5" and rest = "[PDict [(''event'', PStr ''on_chat_model_stream''), (''data'', PDict [(''chunk'', PStr ''y'')])]]"
      and lg = "(langgraph_init (\<lambda>c. \<lparr>elements = [PDict [(''event'', PStr ''on_chat_model_stream''), (''data'', PDict [(''chunk'', PStr ''x'')])], PInt 5, PDict [(''event'', PStr ''on_chat_model_stream''), (''data'', PDict [(''chunk'', PStr ''y'')])]], raises = None\<rparr>))" and p = "''q''"]
  by (simp add: handle_event_def frames_simps langgraph_init_def langgraph_ainvoke_def
      langgraph_call_def)

text \<open>
  Claim C8. \<^verbatim>\<open>set_configurable\<close> replaces the configuration by itself merged with
  the update: a key of the update takes the update's value, every other key keeps its
  old value, and nothing else of the processor changes. The next \<^verbatim>\<open>_ainvoke\<close>
  calls the backend once, with exactly the merged mapping; after an update with
  \<open>thread_id = abc\<close> the call carries \<open>thread_id = abc\<close>.
\<close>

theorem configuration_merge:
  "lc_config (langchain_set_configurable self U) = lc_config self ++ U
   \<and> (U k = Some v \<longrightarrow> lc_config (langchain_set_configurable self U) k = Some v)
   \<and> (U k = None \<longrightarrow> lc_config (langchain_set_configurable self U) k = lc_config self k)
   \<and> lc_chain (langchain_set_configurable self U) = lc_chain self
   \<and> lc_transcript_key (langchain_set_configurable self U) = lc_transcript_key self
   \<and> chain_calls (fst (langchain_ainvoke (langchain_set_configurable self U) text))
       = [\<lparr>inputs = [lc_transcript_key self \<mapsto> text], configurable = lc_config self ++ U\<rparr>]
   \<and> map (\<lambda>c. configurable c ''thread_id'')
        (chain_calls (fst (langchain_ainvoke
           (langchain_set_configurable self [''thread_id'' \<mapsto> PStr ''abc'']) text)))
       = [Some (PStr ''abc'')]"
  by (simp add: langchain_ainvoke_calls langchain_call_def langchain_set_configurable_def
      map_add_def)

theorem configuration_merge_witness:
  "[''thread_id'' \<mapsto> PStr ''abc''] ''thread_id'' = Some (PStr ''abc'')
   \<and> lc_config (langchain_set_configurable
         ((langchain_init (\<lambda>c. \<lparr>elements = [], raises = None\<rparr>) ''input'')
            \<lparr>lc_config := [''thread_id'' \<mapsto> PStr ''old'', ''user'' \<mapsto> PStr ''u'']\<rparr>)
         [''thread_id'' \<mapsto> PStr ''abc'']) ''thread_id'' = Some (PStr ''abc'')
   \<and> [''thread_id'' \<mapsto> PStr ''abc''] ''user'' = None
   \<and> lc_config (langchain_set_configurable
         ((langchain_init (\<lambda>c. \<lparr>elements = [], raises = None\<rparr>) ''input'')
            \<lparr>lc_config := [''thread_id'' \<mapsto> PStr ''old'', ''user'' \<mapsto> PStr ''u'']\<rparr>)
         [''thread_id'' \<mapsto> PStr ''abc'']) ''user'' = Some (PStr ''u'')"
  using configuration_merge [of
      "(langchain_init (\<lambda>c. \<lparr>elements = [], raises = None\<rparr>) ''input'')
            \<lparr>lc_config := [''thread_id'' \<mapsto> PStr ''old'', ''user'' \<mapsto> PStr ''u'']\<rparr>"
      "[''thread_id'' \<mapsto> PStr ''abc'']" "''thread_id''" "PStr ''abc''"]
    configuration_merge [of
      "(langchain_init (\<lambda>c. \<lparr>elements = [], raises = None\<rparr>) ''input'')
            \<lparr>lc_config := [''thread_id'' \<mapsto> PStr ''old'', ''user'' \<mapsto> PStr ''u'']\<rparr>"
      "[''thread_id'' \<mapsto> PStr ''abc'']" "''user''"]
  by (simp add: langchain_init_def langchain_set_configurable_def)

text \<open>
  Claim C7. On an \<open>LLMMessagesFrame\<close> whose list of messages is not empty and whose
  last message has a text content, \<^verbatim>\<open>process_frame\<close> of either processor logs,
  strips the content and runs \<^verbatim>\<open>_ainvoke\<close> on it: the backend is called exactly
  once, with the stripped text, and no \<open>LLMMessagesFrame\<close> is among the frames pushed.
  For the messages \<open>[{role: user, content: "  Hello  "}]\<close> and a chain that yields
  \<open>Hel\<close> and \<open>lo\<close>, the frames pushed are the start frame, \<open>TextFrame Hel\<close>,
  \<open>TextFrame lo\<close> and the end frame.
\<close>

theorem trigger_handling:
  "messages \<noteq> [] \<and> py_getitem (last messages) ''content'' = Inr (PStr s) \<longrightarrow>
     langchain_process_frame lc (LLMMessagesFrame messages) direction
       = (Log debug # fst (langchain_ainvoke lc (strip s)), snd (langchain_ainvoke lc (strip s)))
     \<and> chain_calls (fst (langchain_process_frame lc (LLMMessagesFrame messages) direction))
       = [\<lparr>inputs = [lc_transcript_key lc \<mapsto> strip s], configurable = lc_config lc\<rparr>]
     \<and> list_all (\<lambda>f. \<not> trigger f)
         (frames (fst (langchain_process_frame lc (LLMMessagesFrame messages) direction)))
     \<and> langgraph_process_frame lg (LLMMessagesFrame messages) direction
       = (Log debug # fst (langgraph_ainvoke lg (strip s)), snd (langgraph_ainvoke lg (strip s)))
     \<and> graph_calls (fst (langgraph_process_frame lg (LLMMessagesFrame messages) direction))
       = [\<lparr>human_message = strip s, thread_id = lg_participant_id lg\<rparr>]
     \<and> list_all (\<lambda>f. \<not> trigger f)
         (frames (fst (langgraph_process_frame lg (LLMMessagesFrame messages) direction)))"
proof
  assume a: "messages \<noteq> [] \<and> py_getitem (last messages) ''content'' = Inr (PStr s)"
  then have m: "last_message messages = Inr (last messages)"
    by (simp add: last_message_nonempty)
  have c: "langchain_process_frame lc (LLMMessagesFrame messages) direction
       = (Log debug # fst (langchain_ainvoke lc (strip s)), snd (langchain_ainvoke lc (strip s)))"
    using a m by (simp split: prod.splits)
  have g: "langgraph_process_frame lg (LLMMessagesFrame messages) direction
       = (Log debug # fst (langgraph_ainvoke lg (strip s)), snd (langgraph_ainvoke lg (strip s)))"
    using a m by (simp split: prod.splits)
  show "langchain_process_frame lc (LLMMessagesFrame messages) direction
       = (Log debug # fst (langchain_ainvoke lc (strip s)), snd (langchain_ainvoke lc (strip s)))
     \<and> chain_calls (fst (langchain_process_frame lc (LLMMessagesFrame messages) direction))
       = [\<lparr>inputs = [lc_transcript_key lc \<mapsto> strip s], configurable = lc_config lc\<rparr>]
     \<and> list_all (\<lambda>f. \<not> trigger f)
         (frames (fst (langchain_process_frame lc (LLMMessagesFrame messages) direction)))
     \<and> langgraph_process_frame lg (LLMMessagesFrame messages) direction
       = (Log debug # fst (langgraph_ainvoke lg (strip s)), snd (langgraph_ainvoke lg (strip s)))
     \<and> graph_calls (fst (langgraph_process_frame lg (LLMMessagesFrame messages) direction))
       = [\<lparr>human_message = strip s, thread_id = lg_participant_id lg\<rparr>]
     \<and> list_all (\<lambda>f. \<not> trigger f)
         (frames (fst (langgraph_process_frame lg (LLMMessagesFrame messages) direction)))"
    unfolding c g
    by (simp add: langchain_ainvoke_calls langgraph_ainvoke_calls langchain_call_def
        langgraph_call_def frames_simps langchain_ainvoke_no_trigger langgraph_ainvoke_no_trigger)
qed

theorem trigger_handling_witness:
  "[PDict [(''role'', PStr ''user''), (''content'', PStr ''  Hello  '')]] \<noteq> []
   \<and> py_getitem (last [PDict [(''role'', PStr ''user''), (''content'', PStr ''  Hello  '')]]) ''content''
       = Inr (PStr ''  Hello  '')
   \<and> strip ''  Hello  '' = ''Hello''
   \<and> langchain_process_frame
        (langchain_init (\<lambda>c. if inputs c ''input'' = Some ''Hello''
                              then \<lparr>elements = [PStr ''Hel'', PStr ''lo''], raises = None\<rparr>
                              else \<lparr>elements = [], raises = None\<rparr>) ''input'')
        (LLMMessagesFrame [PDict [(''role'', PStr ''user''), (''content'', PStr ''  Hello  '')]])
        DOWNSTREAM
       = ([Log debug, Log debug, Push LLMFullResponseStartFrame DOWNSTREAM,
           Astream \<lparr>inputs = [''input'' \<mapsto> ''Hello''], configurable = Map.empty\<rparr>,
           Anext, Push (TextFrame ''Hel'') DOWNSTREAM,
           Anext, Push (TextFrame ''lo'') DOWNSTREAM,
           Anext, Push LLMFullResponseEndFrame DOWNSTREAM], None)
   \<and> frames (fst (langchain_process_frame
        (langchain_init (\<lambda>c. if inputs c ''input'' = Some ''Hello''
                              then \<lparr>elements = [PStr ''Hel'', PStr ''lo''], raises = None\<rparr>
                              else \<lparr>elements = [], raises = None\<rparr>) ''input'')
        (LLMMessagesFrame [PDict [(''role'', PStr ''user''), (''content'', PStr ''  Hello  '')]])
        DOWNSTREAM))
       = [LLMFullResponseStartFrame, TextFrame ''Hel'', TextFrame ''lo'', LLMFullResponseEndFrame]
   \<and> graph_calls (fst (langgraph_process_frame
        (langgraph_init (\<lambda>c. \<lparr>elements = [], raises = None\<rparr>))
        (LLMMessagesFrame [PDict [(''role'', PStr ''user''), (''content'', PStr ''  Hello  '')]])
        DOWNSTREAM))
       = [\<lparr>human_message = ''Hello'', thread_id = None\<rparr>]"
  using trigger_handling [of
      "[PDict [(''role'', PStr ''user''), (''content'', PStr ''  Hello  '')]]" "''  Hello  ''"
      "langchain_init (\<lambda>c. if inputs c ''input'' = Some ''Hello''
                              then \<lparr>elements = [PStr ''Hel'', PStr ''lo''], raises = None\<rparr>
                              else \<lparr>elements = [], raises = None\<rparr>) ''input''"
      DOWNSTREAM
      "langgraph_init (\<lambda>c. \<lparr>elements = [], raises = None\<rparr>)"]
  by (simp add: langchain_init_def langgraph_init_def langchain_ainvoke_def langchain_call_def
      langgraph_ainvoke_def langgraph_call_def strip_def isspace_def frames_simps)

section \<open>The event classifier\<close>

text \<open>
  Claim C6. The handling of one event of \<^verbatim>\<open>LanggraphProcessor\<close>: an
  \<open>on_chat_model_stream\<close> event with a chunk pushes exactly \<open>LLMResponseStartFrame\<close>,
  the \<open>TextFrame\<close> of the extracted text and \<open>LLMResponseEndFrame\<close>; an
  \<open>on_tool_start\<close> event pushes no frame (it only logs); an \<open>on_retriever_end\<close> event
  pushes one \<open>ToolResultMessage\<close> per document, in the order of the list; an event of
  any other kind has no effect and raises nothing. For the stream of a tool start, a
  model chunk \<open>42\<close> and a retriever end with two documents, the frames pushed are the
  start frame, the bracketed \<open>TextFrame 42\<close>, the two tool results and the end frame.
\<close>

theorem event_classifier:
  "(py_getitem ev ''event'' = Inr (PStr ''on_chat_model_stream'')
      \<and> py_getitem ev ''data'' = Inr data \<and> py_getitem data ''chunk'' = Inr chunk \<longrightarrow>
      handle_event ev =
        ([Push LLMResponseStartFrame DOWNSTREAM,
          Push (TextFrame (langgraph_get_token_value chunk)) DOWNSTREAM,
          Push LLMResponseEndFrame DOWNSTREAM], None))
   \<and> (py_getitem ev ''event'' = Inr (PStr ''on_tool_start'') \<longrightarrow>
      frames (fst (handle_event ev)) = [])
   \<and> (py_getitem ev ''event'' = Inr (PStr ''on_tool_start'')
      \<and> py_getitem ev ''name'' = Inr nm \<and> py_getitem ev ''data'' = Inr (PDict kvs) \<longrightarrow>
      handle_event ev = ([Log debug], None))
   \<and> (py_getitem ev ''event'' = Inr (PStr ''on_retriever_end'')
      \<and> py_getitem ev ''data'' = Inr data \<and> py_getitem data ''output'' = Inr outp
      \<and> py_getitem outp ''documents'' = Inr (PList (map Document ds)) \<longrightarrow>
      handle_event ev =
        (Log debug # map (\<lambda>d. Push (ToolResultMessage d ''tool_result'') DOWNSTREAM) ds, None))
   \<and> (py_getitem ev ''event'' = Inr kind \<and> kind \<noteq> PStr ''on_chat_model_stream''
      \<and> kind \<noteq> PStr ''on_tool_start'' \<and> kind \<noteq> PStr ''on_retriever_end'' \<longrightarrow>
      handle_event ev = ([], None))
   \<and> (elements (lg_graph lg (langgraph_call lg msg)) =
        [PDict [(''event'', PStr ''on_tool_start''), (''name'', PStr tool),
                (''data'', PDict [(''input'', inp)])],
         PDict [(''event'', PStr ''on_chat_model_stream''),
                (''data'', PDict [(''chunk'', AIMessageChunk ''42'' c)])],
         PDict [(''event'', PStr ''on_retriever_end''),
                (''data'', PDict [(''output'', PDict [(''documents'', PList [Document da, Document db])])])]]
      \<and> raises (lg_graph lg (langgraph_call lg msg)) = None \<longrightarrow>
      langgraph_ainvoke lg msg =
        ([Log debug, Push LLMFullResponseStartFrame DOWNSTREAM, AstreamEvents (langgraph_call lg msg),
          Anext, Log debug,
          Anext, Push LLMResponseStartFrame DOWNSTREAM, Push (TextFrame ''42'') DOWNSTREAM,
          Push LLMResponseEndFrame DOWNSTREAM,
          Anext, Log debug, Push (ToolResultMessage da ''tool_result'') DOWNSTREAM,
          Push (ToolResultMessage db ''tool_result'') DOWNSTREAM,
          Anext, Push LLMFullResponseEndFrame DOWNSTREAM], None)
      \<and> frames (fst (langgraph_ainvoke lg msg)) =
        [LLMFullResponseStartFrame, LLMResponseStartFrame, TextFrame ''42'', LLMResponseEndFrame,
         ToolResultMessage da ''tool_result'', ToolResultMessage db ''tool_result'',
         LLMFullResponseEndFrame])"
proof (intro conjI impI)
  assume "py_getitem ev ''event'' = Inr (PStr ''on_chat_model_stream'')
      \<and> py_getitem ev ''data'' = Inr data \<and> py_getitem data ''chunk'' = Inr chunk"
  then show "handle_event ev =
        ([Push LLMResponseStartFrame DOWNSTREAM,
          Push (TextFrame (langgraph_get_token_value chunk)) DOWNSTREAM,
          Push LLMResponseEndFrame DOWNSTREAM], None)"
    by (simp add: handle_event_def)
next
  assume "py_getitem ev ''event'' = Inr (PStr ''on_tool_start'')"
  then show "frames (fst (handle_event ev)) = []"
    by (rule handle_event_tool_start)
next
  assume "py_getitem ev ''event'' = Inr (PStr ''on_tool_start'')
      \<and> py_getitem ev ''name'' = Inr nm \<and> py_getitem ev ''data'' = Inr (PDict kvs)"
  then show "handle_event ev = ([Log debug], None)"
    by (simp add: handle_event_def split: option.splits)
next
  assume "py_getitem ev ''event'' = Inr (PStr ''on_retriever_end'')
      \<and> py_getitem ev ''data'' = Inr data \<and> py_getitem data ''output'' = Inr outp
      \<and> py_getitem outp ''documents'' = Inr (PList (map Document ds))"
  then show "handle_event ev =
        (Log debug # map (\<lambda>d. Push (ToolResultMessage d ''tool_result'') DOWNSTREAM) ds, None)"
    by (simp add: handle_event_def push_docs_documents)
next
  assume "py_getitem ev ''event'' = Inr kind \<and> kind \<noteq> PStr ''on_chat_model_stream''
      \<and> kind \<noteq> PStr ''on_tool_start'' \<and> kind \<noteq> PStr ''on_retriever_end''"
  then show "handle_event ev = ([], None)"
    by (simp add: handle_event_other)
next
  assume a: "elements (lg_graph lg (langgraph_call lg msg)) =
        [PDict [(''event'', PStr ''on_tool_start''), (''name'', PStr tool),
                (''data'', PDict [(''input'', inp)])],
         PDict [(''event'', PStr ''on_chat_model_stream''),
                (''data'', PDict [(''chunk'', AIMessageChunk ''42'' c)])],
         PDict [(''event'', PStr ''on_retriever_end''),
                (''data'', PDict [(''output'', PDict [(''documents'', PList [Document da, Document db])])])]]
      \<and> raises (lg_graph lg (langgraph_call lg msg)) = None"
  then show t: "langgraph_ainvoke lg msg =
        ([Log debug, Push LLMFullResponseStartFrame DOWNSTREAM, AstreamEvents (langgraph_call lg msg),
          Anext, Log debug,
          Anext, Push LLMResponseStartFrame DOWNSTREAM, Push (TextFrame ''42'') DOWNSTREAM,
          Push LLMResponseEndFrame DOWNSTREAM,
          Anext, Log debug, Push (ToolResultMessage da ''tool_result'') DOWNSTREAM,
          Push (ToolResultMessage db ''tool_result'') DOWNSTREAM,
          Anext, Push LLMFullResponseEndFrame DOWNSTREAM], None)"
    by (simp add: langgraph_ainvoke_def Let_def handle_event_def)
  show "frames (fst (langgraph_ainvoke lg msg)) =
        [LLMFullResponseStartFrame, LLMResponseStartFrame, TextFrame ''42'', LLMResponseEndFrame,
         ToolResultMessage da ''tool_result'', ToolResultMessage db ''tool_result'',
         LLMFullResponseEndFrame]"
    unfolding t by (simp add: frames_simps)
qed

theorem event_classifier_witness:
  "py_getitem (PDict [(''event'', PStr ''on_chat_model_stream''),
                     (''data'', PDict [(''chunk'', AIMessageChunk ''42'' PNone)])]) ''event''
     = Inr (PStr ''on_chat_model_stream'')
   \<and> py_getitem (PDict [(''event'', PStr ''on_chat_model_stream''),
                     (''data'', PDict [(''chunk'', AIMessageChunk ''42'' PNone)])]) ''data''
     = Inr (PDict [(''chunk'', AIMessageChunk ''42'' PNone)])
   \<and> py_getitem (PDict [(''chunk'', AIMessageChunk ''42'' PNone)]) ''chunk''
     = Inr (AIMessageChunk ''42'' PNone)
   \<and> handle_event (PDict [(''event'', PStr ''on_chat_model_stream''),
                     (''data'', PDict [(''chunk'', AIMessageChunk ''42'' PNone)])])
     = ([Push LLMResponseStartFrame DOWNSTREAM, Push (TextFrame ''42'') DOWNSTREAM,
         Push LLMResponseEndFrame DOWNSTREAM], None)
   \<and> py_getitem (PDict [(''event'', PStr ''on_tool_start''), (''name'', PStr ''search''),
                     (''data'', PDict [(''input'', PStr ''q'')])]) ''event''
     = Inr (PStr ''on_tool_start'')
   \<and> py_getitem (PDict [(''event'', PStr ''on_tool_start''), (''name'', PStr ''search''),
                     (''data'', PDict [(''input'', PStr ''q'')])]) ''name''
     = Inr (PStr ''search'')
   \<and> py_getitem (PDict [(''event'', PStr ''on_tool_start''), (''name'', PStr ''search''),
                     (''data'', PDict [(''input'', PStr ''q'')])]) ''data''
     = Inr (PDict [(''input'', PStr ''q'')])
   \<and> handle_event (PDict [(''event'', PStr ''on_tool_start''), (''name'', PStr ''search''),
                     (''data'', PDict [(''input'', PStr ''q'')])])
     = ([Log debug], None)
   \<and> py_getitem (PDict [(''event'', PStr ''on_retriever_end''),
          (''data'', PDict [(''output'', PDict [(''documents'',
              PList (map Document [PStr ''D1'', PStr ''D2'']))])])]) ''event''
     = Inr (PStr ''on_retriever_end'')
   \<and> py_getitem (PDict [(''event'', PStr ''on_retriever_end''),
          (''data'', PDict [(''output'', PDict [(''documents'',
              PList (map Document [PStr ''D1'', PStr ''D2'']))])])]) ''data''
     = Inr (PDict [(''output'', PDict [(''documents'',
              PList (map Document [PStr ''D1'', PStr ''D2'']))])])
   \<and> py_getitem (PDict [(''output'', PDict [(''documents'',
              PList (map Document [PStr ''D1'', PStr ''D2'']))])]) ''output''
     = Inr (PDict [(''documents'', PList (map Document [PStr ''D1'', PStr ''D2'']))])
   \<and> py_getitem (PDict [(''documents'', PList (map Document [PStr ''D1'', PStr ''D2'']))])
        ''documents''
     = Inr (PList (map Document [PStr ''D1'', PStr ''D2'']))
   \<and> handle_event (PDict [(''event'', PStr ''on_retriever_end''),
          (''data'', PDict [(''output'', PDict [(''documents'',
              PList (map Document [PStr ''D1'', PStr ''D2'']))])])])
     = ([Log debug, Push (ToolResultMessage (PStr ''D1'') ''tool_result'') DOWNSTREAM,
         Push (ToolResultMessage (PStr ''D2'') ''tool_result'') DOWNSTREAM], None)
   \<and> py_getitem (PDict [(''event'', PStr ''on_chain_end'')]) ''event'' = Inr (PStr ''on_chain_end'')
   \<and> PStr ''on_chain_end'' \<noteq> PStr ''on_chat_model_stream''
   \<and> PStr ''on_chain_end'' \<noteq> PStr ''on_tool_start''
   \<and> PStr ''on_chain_end'' \<noteq> PStr ''on_retriever_end''
   \<and> handle_event (PDict [(''event'', PStr ''on_chain_end'')]) = ([], None)
   \<and> elements (lg_graph
        (langgraph_init (\<lambda>c. \<lparr>elements =
          [PDict [(''event'', PStr ''on_tool_start''), (''name'', PStr ''search''),
                  (''data'', PDict [(''input'', PStr ''q'')])],
           PDict [(''event'', PStr ''on_chat_model_stream''),
                  (''data'', PDict [(''chunk'', AIMessageChunk ''42'' PNone)])],
           PDict [(''event'', PStr ''on_retriever_end''),
                  (''data'', PDict [(''output'', PDict [(''documents'',
                      PList [Document (PStr ''D1''), Document (PStr ''D2'')])])])]],
          raises = None\<rparr>))
        (langgraph_call (langgraph_init (\<lambda>c. \<lparr>elements =
          [PDict [(''event'', PStr ''on_tool_start''), (''name'', PStr ''search''),
                  (''data'', PDict [(''input'', PStr ''q'')])],
           PDict [(''event'', PStr ''on_chat_model_stream''),
                  (''data'', PDict [(''chunk'', AIMessageChunk ''42'' PNone)])],
           PDict [(''event'', PStr ''on_retriever_end''),
                  (''data'', PDict [(''output'', PDict [(''documents'',
                      PList [Document (PStr ''D1''), Document (PStr ''D2'')])])])]],
          raises = None\<rparr>)) ''q''))
     = [PDict [(''event'', PStr ''on_tool_start''), (''name'', PStr ''search''),
                  (''data'', PDict [(''input'', PStr ''q'')])],
           PDict [(''event'', PStr ''on_chat_model_stream''),
                  (''data'', PDict [(''chunk'', AIMessageChunk ''42'' PNone)])],
           PDict [(''event'', PStr ''on_retriever_end''),
                  (''data'', PDict [(''output'', PDict [(''documents'',
                      PList [Document (PStr ''D1''), Document (PStr ''D2'')])])])]]
   \<and> frames (fst (langgraph_ainvoke
        (langgraph_init (\<lambda>c. \<lparr>elements =
          [PDict [(''event'', PStr ''on_tool_start''), (''name'', PStr ''search''),
                  (''data'', PDict [(''input'', PStr ''q'')])],
           PDict [(''event'', PStr ''on_chat_model_stream''),
                  (''data'', PDict [(''chunk'', AIMessageChunk ''42'' PNone)])],
           PDict [(''event'', PStr ''on_retriever_end''),
                  (''data'', PDict [(''output'', PDict [(''documents'',
                      PList [Document (PStr ''D1''), Document (PStr ''D2'')])])])]],
          raises = None\<rparr>)) ''q''))
     = [LLMFullResponseStartFrame, LLMResponseStartFrame, TextFrame ''42'', LLMResponseEndFrame,
        ToolResultMessage (PStr ''D1'') ''tool_result'', ToolResultMessage (PStr ''D2'') ''tool_result'',
        LLMFullResponseEndFrame]"
  using
    event_classifier [where
      ev = "PDict [(''event'', PStr ''on_chat_model_stream''),
                   (''data'', PDict [(''chunk'', AIMessageChunk ''42'' PNone)])]"
      and data = "PDict [(''chunk'', AIMessageChunk ''42'' PNone)]"
      and chunk = "AIMessageChunk ''42'' PNone"]
    event_classifier [where
      ev = "PDict [(''event'', PStr ''on_tool_start''), (''name'', PStr ''search''),
                   (''data'', PDict [(''input'', PStr ''q'')])]"
      and nm = "PStr ''search''" and kvs = "[(''input'', PStr ''q'')]"]
    event_classifier [where
      ev = "PDict [(''event'', PStr ''on_retriever_end''),
          (''data'', PDict [(''output'', PDict [(''documents'',
              PList (map Document [PStr ''D1'', PStr ''D2'']))])])]"
      and data = "PDict [(''output'', PDict [(''documents'',
              PList (map Document [PStr ''D1'', PStr ''D2'']))])]"
      and outp = "PDict [(''documents'', PList (map Document [PStr ''D1'', PStr ''D2'']))]"
      and ds = "[PStr ''D1'', PStr ''D2'']"]
    event_classifier [where ev = "PDict [(''event'', PStr ''on_chain_end'')]"
      and kind = "PStr ''on_chain_end''"]
    event_classifier [where
      lg = "langgraph_init (\<lambda>c. \<lparr>elements =
          [PDict [(''event'', PStr ''on_tool_start''), (''name'', PStr ''search''),
                  (''data'', PDict [(''input'', PStr ''q'')])],
           PDict [(''event'', PStr ''on_chat_model_stream''),
                  (''data'', PDict [(''chunk'', AIMessageChunk ''42'' PNone)])],
           PDict [(''event'', PStr ''on_retriever_end''),
                  (''data'', PDict [(''output'', PDict [(''documents'',
                      PList [Document (PStr ''D1''), Document (PStr ''D2'')])])])]],
          raises = None\<rparr>)"
      and msg = "''q''" and tool = "''search''" and inp = "PStr ''q''" and c = PNone
      and da = "PStr ''D1''" and db = "PStr ''D2''"]
  by (simp add: langgraph_init_def handle_event_def langgraph_ainvoke_def langgraph_call_def
      frames_simps)

section \<open>Elements of an unrecognized shape\<close>

text \<open>
  Claim C3 says that an element of an unrecognized shape produces no payload event
  and does not abort the stream. The code differs in two places. In
  \<^verbatim>\<open>LangchainProcessor\<close> the loop pushes a \<open>TextFrame\<close> for every element, so a
  value that is neither a string nor a chunk produces a \<open>TextFrame\<close> with the empty
  text. In \<^verbatim>\<open>LanggraphProcessor\<close> an element without an \<open>event\<close> entry makes the
  lookup raise, which ends the loop: the event after it is not handled.
\<close>

theorem unrecognized_element_counterexample:
  "langchain_ainvoke (langchain_init (\<lambda>c. \<lparr>elements = [PNone], raises = None\<rparr>) ''input'') ''q''
     = ([Log debug, Push LLMFullResponseStartFrame DOWNSTREAM,
         Astream \<lparr>inputs = [''input'' \<mapsto> ''q''], configurable = Map.empty\<rparr>,
         Anext, Push (TextFrame []) DOWNSTREAM, Anext,
         Push LLMFullResponseEndFrame DOWNSTREAM], None)
   \<and> frames (fst (langchain_ainvoke
         (langchain_init (\<lambda>c. \<lparr>elements = [PNone], raises = None\<rparr>) ''input'') ''q''))
     = [LLMFullResponseStartFrame, TextFrame [], LLMFullResponseEndFrame]
   \<and> payload (TextFrame [])
   \<and> frames (fst (langgraph_ainvoke
         (langgraph_init (\<lambda>c. \<lparr>elements =
            [PInt 5,
             PDict [(''event'', PStr ''on_chat_model_stream''), (''data'', PDict [(''chunk'', PStr ''x'')])]],
            raises = None\<rparr>)) ''q''))
     = [LLMFullResponseStartFrame, LLMFullResponseEndFrame]"
  by (simp add: langchain_init_def langchain_ainvoke_def langchain_call_def frames_simps
      langgraph_init_def langgraph_ainvoke_def langgraph_call_def handle_event_def)

text \<open>
  Claim C3, as amended. An element of an unrecognized shape never keeps the framing
  bracket from being completed. In \<^verbatim>\<open>LangchainProcessor\<close> it produces exactly one
  \<open>TextFrame\<close> with the empty text, and the elements after it are still translated.
  In \<^verbatim>\<open>LanggraphProcessor\<close> an event whose kind is none of the four handled kinds
  has no effect, and the events after it are handled as if it were absent; an element
  whose \<open>event\<close> entry cannot be read pushes nothing and ends the stream there, as a
  contained fault.
\<close>

theorem unrecognized_element:
  "((\<forall>s. x \<noteq> PStr s) \<and> (\<forall>t d. x \<noteq> AIMessageChunk t d)
      \<and> elements (lc_chain lc (langchain_call lc q)) = pre @ x # post
      \<and> contained (raises (lc_chain lc (langchain_call lc q))) \<longrightarrow>
      snd (langchain_ainvoke lc q) = None
      \<and> frames (fst (langchain_ainvoke lc q)) =
          LLMFullResponseStartFrame
            # map (\<lambda>t. TextFrame (langchain_get_token_value t)) pre
            @ TextFrame []
            # map (\<lambda>t. TextFrame (langchain_get_token_value t)) post
            @ [LLMFullResponseEndFrame])
   \<and> (py_getitem ev ''event'' = Inr kind
      \<and> kind \<noteq> PStr ''on_chat_model_stream'' \<and> kind \<noteq> PStr ''on_tool_start''
      \<and> kind \<noteq> PStr ''on_tool_end'' \<and> kind \<noteq> PStr ''on_retriever_end''
      \<and> elements (lg_graph lg (langgraph_call lg q')) = before @ ev # after
      \<and> contained (raises (lg_graph lg (langgraph_call lg q'))) \<longrightarrow>
      handle_event ev = ([], None)
      \<and> snd (langgraph_ainvoke lg q') = None
      \<and> frames (fst (langgraph_ainvoke lg q')) =
          LLMFullResponseStartFrame
            # frames (fst (langgraph_drain (before @ after) (raises (lg_graph lg (langgraph_call lg q')))))
            @ [LLMFullResponseEndFrame])
   \<and> (py_getitem v ''event'' = Inl e
      \<and> elements (lg_graph lg' (langgraph_call lg' q'')) = good @ v # rest
      \<and> list_all (\<lambda>u. snd (handle_event u) = None) good
      \<and> contained (raises (lg_graph lg' (langgraph_call lg' q''))) \<longrightarrow>
      handle_event v = ([], Some e)
      \<and> snd (langgraph_ainvoke lg' q'') = None
      \<and> frames (fst (langgraph_ainvoke lg' q'')) =
          LLMFullResponseStartFrame
            # concat (map (\<lambda>u. frames (fst (handle_event u))) good)
            @ [LLMFullResponseEndFrame])"
proof (intro conjI impI)
  assume a: "(\<forall>s. x \<noteq> PStr s) \<and> (\<forall>t d. x \<noteq> AIMessageChunk t d)
      \<and> elements (lc_chain lc (langchain_call lc q)) = pre @ x # post
      \<and> contained (raises (lc_chain lc (langchain_call lc q)))"
  then have o: "contained (raises (lc_chain lc (langchain_call lc q)))" by simp
  have x: "langchain_get_token_value x = []" using a by (simp add: unrecognized_token)
  show n: "snd (langchain_ainvoke lc q) = None"
    by (simp add: langchain_ainvoke_outcome[OF o])
  show "frames (fst (langchain_ainvoke lc q)) =
          LLMFullResponseStartFrame
            # map (\<lambda>t. TextFrame (langchain_get_token_value t)) pre
            @ TextFrame []
            # map (\<lambda>t. TextFrame (langchain_get_token_value t)) post
            @ [LLMFullResponseEndFrame]"
    using a x n by (simp add: langchain_ainvoke_frames)
next
  assume a: "py_getitem ev ''event'' = Inr kind
      \<and> kind \<noteq> PStr ''on_chat_model_stream'' \<and> kind \<noteq> PStr ''on_tool_start''
      \<and> kind \<noteq> PStr ''on_tool_end'' \<and> kind \<noteq> PStr ''on_retriever_end''
      \<and> elements (lg_graph lg (langgraph_call lg q')) = before @ ev # after
      \<and> contained (raises (lg_graph lg (langgraph_call lg q')))"
  then have o: "contained (raises (lg_graph lg (langgraph_call lg q')))" by simp
  show h: "handle_event ev = ([], None)"
    using a by (simp add: handle_event_other)
  show n: "snd (langgraph_ainvoke lg q') = None"
    by (simp add: langgraph_ainvoke_outcome[OF o])
  show "frames (fst (langgraph_ainvoke lg q')) =
          LLMFullResponseStartFrame
            # frames (fst (langgraph_drain (before @ after) (raises (lg_graph lg (langgraph_call lg q')))))
            @ [LLMFullResponseEndFrame]"
    using a n langgraph_drain_skip[OF h, of before after]
    by (simp add: langgraph_ainvoke_frames)
next
  assume a: "py_getitem v ''event'' = Inl e
      \<and> elements (lg_graph lg' (langgraph_call lg' q'')) = good @ v # rest
      \<and> list_all (\<lambda>u. snd (handle_event u) = None) good
      \<and> contained (raises (lg_graph lg' (langgraph_call lg' q'')))"
  then have o: "contained (raises (lg_graph lg' (langgraph_call lg' q'')))" by simp
  show h: "handle_event v = ([], Some e)"
    using a by (simp add: handle_event_def)
  show n: "snd (langgraph_ainvoke lg' q'') = None"
    by (simp add: langgraph_ainvoke_outcome[OF o])
  have d: "drawn (good @ v # rest) = good @ [v]"
    using a h by (intro drawn_stop) simp_all
  show "frames (fst (langgraph_ainvoke lg' q'')) =
          LLMFullResponseStartFrame
            # concat (map (\<lambda>u. frames (fst (handle_event u))) good)
            @ [LLMFullResponseEndFrame]"
    using a n d h by (simp add: langgraph_ainvoke_frames langgraph_drain_frames frames_simps)
qed

theorem unrecognized_element_witness:
  "(\<forall>s. PInt 7 \<noteq> PStr s) \<and> (\<forall>t d. PInt 7 \<noteq> AIMessageChunk t d)
   \<and> elements (lc_chain
        (langchain_init (\<lambda>c. \<lparr>elements = [PStr ''a'', PInt 7, PStr ''b''], raises = None\<rparr>) ''input'')
        (langchain_call
          (langchain_init (\<lambda>c. \<lparr>elements = [PStr ''a'', PInt 7, PStr ''b''], raises = None\<rparr>) ''input'')
          ''q'')) = [PStr ''a''] @ PInt 7 # [PStr ''b'']
   \<and> contained (raises (lc_chain
        (langchain_init (\<lambda>c. \<lparr>elements = [PStr ''a'', PInt 7, PStr ''b''], raises = None\<rparr>) ''input'')
        (langchain_call
          (langchain_init (\<lambda>c. \<lparr>elements = [PStr ''a'', PInt 7, PStr ''b''], raises = None\<rparr>) ''input'')
          ''q'')))
   \<and> frames (fst (langchain_ainvoke
        (langchain_init (\<lambda>c. \<lparr>elements = [PStr ''a'', PInt 7, PStr ''b''], raises = None\<rparr>) ''input'')
        ''q''))
     = [LLMFullResponseStartFrame, TextFrame ''a'', TextFrame [], TextFrame ''b'',
        LLMFullResponseEndFrame]
   \<and> py_getitem (PDict [(''event'', PStr ''on_chain_end'')]) ''event'' = Inr (PStr ''on_chain_end'')
   \<and> PStr ''on_chain_end'' \<noteq> PStr ''on_chat_model_stream''
   \<and> PStr ''on_chain_end'' \<noteq> PStr ''on_tool_start''
   \<and> PStr ''on_chain_end'' \<noteq> PStr ''on_tool_end''
   \<and> PStr ''on_chain_end'' \<noteq> PStr ''on_retriever_end''
   \<and> elements (lg_graph
        (langgraph_init (\<lambda>c. \<lparr>elements =
           [PDict [(''event'', PStr ''on_chain_end'')],
            PDict [(''event'', PStr ''on_chat_model_stream''), (''data'', PDict [(''chunk'', PStr ''x'')])]],
           raises = None\<rparr>))
        (langgraph_call (langgraph_init (\<lambda>c. \<lparr>elements =
           [PDict [(''event'', PStr ''on_chain_end'')],
            PDict [(''event'', PStr ''on_chat_model_stream''), (''data'', PDict [(''chunk'', PStr ''x'')])]],
           raises = None\<rparr>)) ''q''))
     = [] @ PDict [(''event'', PStr ''on_chain_end'')]
          # [PDict [(''event'', PStr ''on_chat_model_stream''), (''data'', PDict [(''chunk'', PStr ''x'')])]]
   \<and> frames (fst (langgraph_ainvoke
        (langgraph_init (\<lambda>c. \<lparr>elements =
           [PDict [(''event'', PStr ''on_chain_end'')],
            PDict [(''event'', PStr ''on_chat_model_stream''), (''data'', PDict [(''chunk'', PStr ''x'')])]],
           raises = None\<rparr>)) ''q''))
     = [LLMFullResponseStartFrame, LLMResponseStartFrame, TextFrame ''x'', LLMResponseEndFrame,
        LLMFullResponseEndFrame]
   \<and> py_getitem (PInt 5) ''event'' = Inl TypeError
   \<and> elements (lg_graph
        (langgraph_init (\<lambda>c. \<lparr>elements =
           [PDict [(''event'', PStr ''on_chat_model_stream''), (''data'', PDict [(''chunk'', PStr ''x'')])],
            PInt 5,
            PDict [(''event'', PStr ''on_chat_model_stream''), (''data'', PDict [(''chunk'', PStr ''y'')])]],
           raises = None\<rparr>))
        (langgraph_call (langgraph_init (\<lambda>c. \<lparr>elements =
           [PDict [(''event'', PStr ''on_chat_model_stream''), (''data'', PDict [(''chunk'', PStr ''x'')])],
            PInt 5,
            PDict [(''event'', PStr ''on_chat_model_stream''), (''data'', PDict [(''chunk'', PStr ''y'')])]],
           raises = None\<rparr>)) ''q''))
     = [PDict [(''event'', PStr ''on_chat_model_stream''), (''data'', PDict [(''chunk'', PStr ''x'')])]]
         @ PInt 5
         # [PDict [(''event'', PStr ''on_chat_model_stream''), (''data'', PDict [(''chunk'', PStr ''y'')])]]
   \<and> list_all (\<lambda>u. snd (handle_event u) = None)
        [PDict [(''event'', PStr ''on_chat_model_stream''), (''data'', PDict [(''chunk'', PStr ''x'')])]]
   \<and> frames (fst (langgraph_ainvoke
        (langgraph_init (\<lambda>c. \<lparr>elements =
           [PDict [(''event'', PStr ''on_chat_model_stream''), (''data'', PDict [(''chunk'', PStr ''x'')])],
            PInt 5,
            PDict [(''event'', PStr ''on_chat_model_stream''), (''data'', PDict [(''chunk'', PStr ''y'')])]],
           raises = None\<rparr>)) ''q''))
     = [LLMFullResponseStartFrame, LLMResponseStartFrame, TextFrame ''x'', LLMResponseEndFrame,
        LLMFullResponseEndFrame]"
  using unrecognized_element [where x = "PInt 7"
      and lc = "langchain_init (\<lambda>c. \<lparr>elements = [PStr ''a'', PInt 7, PStr ''b''], raises = None\<rparr>) ''input''"
      and q = "''q''" and pre = "[PStr ''a'']" and post = "[PStr ''b'']"
      and ev = "PDict [(''event'', PStr ''on_chain_end'')]" and kind = "PStr ''on_chain_end''"
      and lg = "langgraph_init (\<lambda>c. \<lparr>elements =
           [PDict [(''event'', PStr ''on_chain_end'')],
            PDict [(''event'', PStr ''on_chat_model_stream''), (''data'', PDict [(''chunk'', PStr ''x'')])]],
           raises = None\<rparr>)"
      and q' = "''q''" and before = "[]"
      and after = "[PDict [(''event'', PStr ''on_chat_model_stream''), (''data'', PDict [(''chunk'', PStr ''x'')])]]"
      and v = "PInt 5" and e = TypeError
      and lg' = "langgraph_init (\<lambda>c. \<lparr>elements =
           [PDict [(''event'', PStr ''on_chat_model_stream''), (''data'', PDict [(''chunk'', PStr ''x'')])],
            PInt 5,
            PDict [(''event'', PStr ''on_chat_model_stream''), (''data'', PDict [(''chunk'', PStr ''y'')])]],
           raises = None\<rparr>)"
      and q'' = "''q''"
      and good = "[PDict [(''event'', PStr ''on_chat_model_stream''), (''data'', PDict [(''chunk'', PStr ''x'')])]]"
      and rest = "[PDict [(''event'', PStr ''on_chat_model_stream''), (''data'', PDict [(''chunk'', PStr ''y'')])]]"]
  by (simp add: langchain_init_def langgraph_init_def langchain_call_def langgraph_call_def
      handle_event_def frames_simps)

end
